theory Spec2Isabelle
  imports Main "HOL-Library.Word"
begin

section \<open>Master volume-growth controller: data model\<close>

text \<open>
  The handlers of \<^verbatim>\<open>weed/server/master_grpc_server_volume.go\<close> are embedded as HOL
  functions. Go's fixed-width integers are words (\<open>uint32\<close> is \<open>32 word\<close>, \<open>int64\<close> and
  \<open>uint64\<close> are \<open>64 word\<close>, read signed or unsigned as the source does), Go's \<open>string\<close>
  is a list of bytes, an \<open>error\<close> return is the left summand of a sum type.
\<close>

type_synonym uint32 = "32 word"
type_synonym int64 = "64 word"
type_synonym uint64 = "64 word"

text \<open>
  Modelled from the spec: \<open>super_block.ReplicaPlacement\<close> is declared outside this file.
  The spec gives it as a triple of counts with copy count \<open>a + b + c + 1\<close>;
  \<open>GetCopyCount\<close> returns a Go \<open>int\<close>.
\<close>

record ReplicaPlacement =
  DiffDataCenterCount :: int
  DiffRackCount :: int
  SameRackCount :: int

definition GetCopyCount :: "ReplicaPlacement \<Rightarrow> int" where
  "GetCopyCount rp = DiffDataCenterCount rp + DiffRackCount rp + SameRackCount rp + 1"

text \<open>
  Modelled from the spec: \<open>needle.TTL\<close> is declared outside this file; the spec gives it
  as a (count, unit) pair of bytes.
\<close>

datatype TTL = TTL (ttl_Count: "8 word") (ttl_Unit: "8 word")

text \<open>\<open>types.DiskType\<close> is a string type.\<close>

type_synonym DiskType = string

record VolumeGrowOption =
  Collection :: string
  ReplicaPlacement :: ReplicaPlacement
  Ttl :: TTL
  DiskType :: DiskType
  Preallocate :: int64
  DataCenter :: string
  Rack :: string
  DataNode :: string
  MemoryMapMaxSizeMb :: uint32

record VolumeGrowRequest =
  Option :: VolumeGrowOption
  Count :: uint32
  Force :: bool
  Reason :: string

text \<open>The errors the handlers of this file return or construct.\<close>

datatype error =
    NotLeaderError
      \<comment> \<open>\<open>raft.NotLeaderError\<close>\<close>
  | ExternalError string
      \<comment> \<open>an error returned by \<open>NewReplicaPlacementFromString\<close> or \<open>ReadTTL\<close>, passed on as it is\<close>
  | OnlyVolumesLeft int64 int64
      \<comment> \<open>\<open>fmt.Errorf("only %d volumes left, not enough for %d", ...)\<close>\<close>
  | DataCenterNotFound string
      \<comment> \<open>\<open>fmt.Errorf("data center %v not found in topology", ...)\<close>\<close>

subsection \<open>Messages of \<open>LookupVolume\<close>\<close>

text \<open>\<open>operation.Location\<close> and \<open>operation.LookupResult\<close>, with the fields this file reads.\<close>

record Location =
  loc_Url :: string
  loc_PublicUrl :: string
  loc_DataCenter :: string
  loc_GrpcPort :: int

record LookupResult =
  VolumeOrFileId :: string
  Locations :: "Location list"
  Error :: string

text \<open>\<open>master_pb.Location\<close> and \<open>master_pb.LookupVolumeResponse_VolumeIdLocation\<close>.\<close>

record pb_Location =
  pb_Url :: string
  pb_PublicUrl :: string
  pb_DataCenter :: string
  pb_GrpcPort :: uint32

record VolumeIdLocation =
  vil_VolumeOrFileId :: string
  vil_Locations :: "pb_Location list"
  vil_Error :: string
  vil_Auth :: string

subsection \<open>Messages of \<open>Statistics\<close> and \<open>VolumeGrow\<close>\<close>

record StatisticsRequest =
  sreq_Replication :: string
  sreq_Collection :: string
  sreq_Ttl :: string
  sreq_DiskType :: string

record VolumeLayoutStats =
  stats_UsedSize :: uint64
  stats_FileCount :: uint64

record StatisticsResponse =
  TotalSize :: uint64
  UsedSize :: uint64
  FileCount :: uint64

text \<open>The fields of \<open>master_pb.AssignRequest\<close> that \<open>VolumeGrow\<close> reads.\<close>

record AssignRequest =
  areq_Replication :: string
  areq_Collection :: string
  areq_Ttl :: string
  areq_DiskType :: string
  areq_DataCenter :: string
  areq_Rack :: string
  areq_DataNode :: string
  areq_MemoryMapMaxSizeMb :: uint32
  areq_WritableVolumeCount :: uint32

subsection \<open>The master server and its collaborators\<close>

text \<open>
  A volume layout is identified by the key \<open>GetVolumeLayout\<close> is called with:
  collection, replica placement, TTL and disk type.
\<close>

type_synonym VolumeLayout = "string \<times> ReplicaPlacement \<times> TTL \<times> DiskType"

text \<open>
  Modelled from the spec: \<open>topology.VolumeLayoutCollection\<close> and its \<open>ToGrowOption\<close> are
  declared outside this file. The scanner reads \<open>vlc.Collection\<close> and \<open>vlc.VolumeLayout\<close>;
  by the spec a layout is the one its key (Collection, ReplicaPlacement, TTL, DiskType)
  resolves to, and the option of a layout carries that key, every other field zero.
\<close>

record VolumeLayoutCollection =
  vlc_Collection :: string
  vlc_rp :: ReplicaPlacement
  vlc_ttl :: TTL
  vlc_diskType :: DiskType

definition vlc_VolumeLayout :: "VolumeLayoutCollection \<Rightarrow> VolumeLayout" where
  "vlc_VolumeLayout vlc = (vlc_Collection vlc, vlc_rp vlc, vlc_ttl vlc, vlc_diskType vlc)"

definition ToGrowOption :: "VolumeLayoutCollection \<Rightarrow> VolumeGrowOption" where
  "ToGrowOption vlc =
     \<lparr>Collection = vlc_Collection vlc, ReplicaPlacement = vlc_rp vlc, Ttl = vlc_ttl vlc,
      DiskType = vlc_diskType vlc, Preallocate = 0, DataCenter = [], Rack = [],
      DataNode = [], MemoryMapMaxSizeMb = 0\<rparr>"

text \<open>
  Modelled from the spec: \<open>VolumeGrowRequest.Equals\<close> is declared outside this file. By the
  spec two requests are equal iff their options are; count and reason do not matter.
\<close>

definition Equals :: "VolumeGrowRequest \<Rightarrow> VolumeGrowRequest \<Rightarrow> bool" where
  "Equals vg req = (Option vg = Option req)"

text \<open>
  The master server as the handlers see it. The topology, the volume-growth engine, the
  parsers and the token signer are declared outside this file: each is a field here, so
  that every theorem holds for whatever they compute. A value of this record is what the
  server answers while one handler call, or one step of a background task, runs:
  \<open>IsLeader\<close> is the answer of \<open>ms.Topo.IsLeader()\<close> at the one place that code asks.
  \<open>AutomaticGrowByType\<close> returns Go's pair of the new locations and an optional error.
  \<open>VolumeSizeLimitMB\<close> is converted to \<open>int64\<close> and to \<open>uint64\<close> where it is used; it is
  taken to be a \<open>uint32\<close>. \<open>GetMaxVolumeCount\<close> stands for
  \<open>ms.Topo.GetDiskUsages().GetMaxVolumeCount()\<close>, \<open>Stats\<close> for the \<open>Stats()\<close> of a layout,
  \<open>SigningKey\<close> and \<open>ExpiresAfterSec\<close> for the fields of \<open>ms.guard\<close>.
\<close>

record 'loc MasterServer =
  IsLeader :: bool
  DefaultReplicaPlacement :: string
  VolumeSizeLimitMB :: uint32
  preallocateSize :: int64
  SigningKey :: string
  ExpiresAfterSec :: int
  GetMaxVolumeCount :: int64
  AvailableSpaceFor :: "VolumeGrowOption \<Rightarrow> int64"
  DataCenterExists :: "string \<Rightarrow> bool"
  Stats :: "VolumeLayout \<Rightarrow> VolumeLayoutStats"
  NewReplicaPlacementFromString :: "string \<Rightarrow> error + ReplicaPlacement"
  ReadTTL :: "string \<Rightarrow> error + TTL"
  ToDiskType :: "string \<Rightarrow> DiskType"
  lookupVolumeId :: "string list \<Rightarrow> string \<Rightarrow> (string \<rightharpoonup> LookupResult)"
  GenJwtForVolumeServer :: "string \<Rightarrow> int \<Rightarrow> string \<Rightarrow> string"
  AutomaticGrowByType :: "VolumeGrowOption \<Rightarrow> uint32 \<Rightarrow> 'loc list \<times> error option"
  ListDataCenters :: "string list"
  ListVolumeLayoutCollections :: "VolumeLayoutCollection list"
  ShouldGrowVolumes :: "VolumeLayout \<Rightarrow> string \<Rightarrow> bool"
  ShouldGrowVolumesByDataNode :: "VolumeLayout \<Rightarrow> string \<Rightarrow> string \<Rightarrow> bool"
  GetLastGrowCount :: "VolumeLayout \<Rightarrow> uint32"

definition GetVolumeLayout ::
  "string \<Rightarrow> ReplicaPlacement \<Rightarrow> TTL \<Rightarrow> DiskType \<Rightarrow> VolumeLayout" where
  "GetVolumeLayout collection rp ttl diskType = (collection, rp, ttl, diskType)"

section \<open>\<open>LookupVolume\<close>\<close>

text \<open>
  \<open>strings.Index(s, ",")\<close> for a one-byte separator: the index of its first occurrence,
  or \<open>-1\<close>.
\<close>

fun strings_Index :: "string \<Rightarrow> char \<Rightarrow> int" where
  "strings_Index [] c = -1"
| "strings_Index (x # xs) c =
     (if x = c then 0
      else (let i = strings_Index xs c in if i < 0 then -1 else i + 1))"

text \<open>The first lines of the loop body: \<open>vid\<close> after the optional cut at the comma.\<close>

definition lookup_vid :: "string \<Rightarrow> string" where
  "lookup_vid volumeOrFileId =
     (let vid = volumeOrFileId;
          commaSep = strings_Index vid (CHR '','')
      in if commaSep > 0 then take (nat commaSep) vid else vid)"

definition to_pb_Location :: "Location \<Rightarrow> pb_Location" where
  "to_pb_Location loc =
     \<lparr>pb_Url = loc_Url loc, pb_PublicUrl = loc_PublicUrl loc,
      pb_DataCenter = loc_DataCenter loc, pb_GrpcPort = word_of_int (loc_GrpcPort loc)\<rparr>"

text \<open>The entry appended for an input whose \<open>vid\<close> is found.\<close>

definition lookup_entry ::
  "('loc, 'z) MasterServer_scheme \<Rightarrow> string \<Rightarrow> LookupResult \<Rightarrow> VolumeIdLocation" where
  "lookup_entry ms volumeOrFileId result =
     (let commaSep = strings_Index volumeOrFileId (CHR '','');
          locations = map to_pb_Location (Locations result);
          auth = (if commaSep > 0
                  then GenJwtForVolumeServer ms (SigningKey ms) (ExpiresAfterSec ms)
                         (VolumeOrFileId result)
                  else [])
      in \<lparr>vil_VolumeOrFileId = VolumeOrFileId result, vil_Locations = locations,
          vil_Error = Error result, vil_Auth = auth\<rparr>)"

text \<open>The loop over \<open>req.VolumeOrFileIds\<close>, appending to \<open>resp.VolumeIdLocations\<close>.\<close>

fun LookupVolume_loop ::
  "('loc, 'z) MasterServer_scheme \<Rightarrow> (string \<rightharpoonup> LookupResult) \<Rightarrow> string list \<Rightarrow>
   VolumeIdLocation list \<Rightarrow> VolumeIdLocation list" where
  "LookupVolume_loop ms volumeLocations [] resp = resp"
| "LookupVolume_loop ms volumeLocations (volumeOrFileId # rest) resp =
     LookupVolume_loop ms volumeLocations rest
       (case volumeLocations (lookup_vid volumeOrFileId) of
          Some result \<Rightarrow> resp @ [lookup_entry ms volumeOrFileId result]
        | None \<Rightarrow> resp)"

text \<open>\<open>LookupVolume\<close> always returns a nil error: the result is on the right.\<close>

definition LookupVolume ::
  "('loc, 'z) MasterServer_scheme \<Rightarrow> string list \<Rightarrow> string \<Rightarrow> error + VolumeIdLocation list" where
  "LookupVolume ms volumeOrFileIds collection =
     (let volumeLocations = lookupVolumeId ms volumeOrFileIds collection
      in Inr (LookupVolume_loop ms volumeLocations volumeOrFileIds []))"

section \<open>\<open>Statistics\<close>\<close>

definition Statistics ::
  "('loc, 'z) MasterServer_scheme \<Rightarrow> StatisticsRequest \<Rightarrow> error + StatisticsResponse" where
  "Statistics ms req =
     (if \<not> IsLeader ms then Inl NotLeaderError
      else
        let replication = (if sreq_Replication req = [] then DefaultReplicaPlacement ms
                           else sreq_Replication req)
        in case NewReplicaPlacementFromString ms replication of
             Inl err \<Rightarrow> Inl err
           | Inr replicaPlacement \<Rightarrow>
              (case ReadTTL ms (sreq_Ttl req) of
                 Inl err \<Rightarrow> Inl err
               | Inr ttl \<Rightarrow>
                  (let volumeLayout = GetVolumeLayout (sreq_Collection req) replicaPlacement ttl
                                        (ToDiskType ms (sreq_DiskType req));
                       stats = Stats ms volumeLayout;
                       totalSize = GetMaxVolumeCount ms * ucast (VolumeSizeLimitMB ms) * 1024 * 1024
                   in Inr \<lparr>TotalSize = totalSize, UsedSize = stats_UsedSize stats,
                           FileCount = stats_FileCount stats\<rparr>)))"

section \<open>Effects\<close>

text \<open>
  What the growth code does beyond returning a value, in the order it does it. The call
  of \<open>AutomaticGrowByType\<close> is the only place where volumes are created and the topology
  is changed; \<open>Go\<close> starts a goroutine with the given body.
\<close>

datatype 'loc KeepConnectedResponse = KeepConnectedResponse (VolumeLocation: 'loc)

datatype 'loc effect =
    CallAutomaticGrowByType VolumeGrowOption uint32
  | BroadcastToClients "'loc KeepConnectedResponse"
  | Sleep nat
      \<comment> \<open>\<open>time.Sleep\<close>, in milliseconds\<close>
  | DoneGrowRequest VolumeLayout
  | FilterStore VolumeGrowRequest
  | FilterDelete VolumeGrowRequest
  | Go "'loc effect list"

text \<open>The effects of a trace with the bodies of its goroutines, in program order.\<close>

fun flatten :: "'loc effect list \<Rightarrow> 'loc effect list" where
  "flatten [] = []"
| "flatten (Go body # es) = flatten body @ flatten es"
| "flatten (e # es) = e # flatten es"

fun broadcasts :: "'loc effect list \<Rightarrow> 'loc KeepConnectedResponse list" where
  "broadcasts [] = []"
| "broadcasts (BroadcastToClients r # es) = r # broadcasts es"
| "broadcasts (e # es) = broadcasts es"

fun grow_calls :: "'loc effect list \<Rightarrow> (VolumeGrowOption \<times> uint32) list" where
  "grow_calls [] = []"
| "grow_calls (CallAutomaticGrowByType option count # es) = (option, count) # grow_calls es"
| "grow_calls (e # es) = grow_calls es"

fun done_calls :: "'loc effect list \<Rightarrow> VolumeLayout list" where
  "done_calls [] = []"
| "done_calls (DoneGrowRequest vl # es) = vl # done_calls es"
| "done_calls (e # es) = done_calls es"

section \<open>\<open>DoAutomaticVolumeGrow\<close> and \<open>VolumeGrow\<close>\<close>

text \<open>The loop \<open>for _, newVidLocation := range newVidLocations\<close>.\<close>

fun broadcast_loop :: "'loc list \<Rightarrow> 'loc effect list" where
  "broadcast_loop [] = []"
| "broadcast_loop (newVidLocation # rest) =
     BroadcastToClients (KeepConnectedResponse newVidLocation) # broadcast_loop rest"

definition DoAutomaticVolumeGrow ::
  "('loc, 'z) MasterServer_scheme \<Rightarrow> VolumeGrowRequest \<Rightarrow> 'loc effect list" where
  "DoAutomaticVolumeGrow ms req =
     (case AutomaticGrowByType ms (Option req) (Count req) of
        (newVidLocations, err) \<Rightarrow>
          CallAutomaticGrowByType (Option req) (Count req) #
          (if err \<noteq> None then [] else broadcast_loop newVidLocations))"

definition volumeGrowOption ::
  "('loc, 'z) MasterServer_scheme \<Rightarrow> AssignRequest \<Rightarrow> ReplicaPlacement \<Rightarrow> TTL \<Rightarrow>
   VolumeGrowOption" where
  "volumeGrowOption ms req replicaPlacement ttl =
     \<lparr>Collection = areq_Collection req, ReplicaPlacement = replicaPlacement, Ttl = ttl,
      DiskType = ToDiskType ms (areq_DiskType req), Preallocate = preallocateSize ms,
      DataCenter = areq_DataCenter req, Rack = areq_Rack req, DataNode = areq_DataNode req,
      MemoryMapMaxSizeMb = areq_MemoryMapMaxSizeMb req\<rparr>"

text \<open>
  \<open>int64(req.WritableVolumeCount * uint32(replicaPlacement.GetCopyCount()))\<close>: the product
  is taken in \<open>uint32\<close> and then widened.
\<close>

definition replicaCount :: "AssignRequest \<Rightarrow> ReplicaPlacement \<Rightarrow> int64" where
  "replicaCount req replicaPlacement =
     ucast (areq_WritableVolumeCount req * (word_of_int (GetCopyCount replicaPlacement) :: uint32))"

text \<open>
  \<open>VolumeGrow\<close> returns its result and the effects it had. The error for an unknown data
  center is assigned to \<open>err\<close>, which is not read again: the function goes on to
  \<open>DoAutomaticVolumeGrow\<close> and returns a nil error.
\<close>

definition VolumeGrow ::
  "('loc, 'z) MasterServer_scheme \<Rightarrow> AssignRequest \<Rightarrow> (error + unit) \<times> 'loc effect list" where
  "VolumeGrow ms req =
     (if \<not> IsLeader ms then (Inl NotLeaderError, [])
      else
        let replication = (if areq_Replication req = [] then DefaultReplicaPlacement ms
                           else areq_Replication req)
        in case NewReplicaPlacementFromString ms replication of
             Inl err \<Rightarrow> (Inl err, [])
           | Inr replicaPlacement \<Rightarrow>
              (case ReadTTL ms (areq_Ttl req) of
                 Inl err \<Rightarrow> (Inl err, [])
               | Inr ttl \<Rightarrow>
                  (let option = volumeGrowOption ms req replicaPlacement ttl;
                       volumeGrowRequest =
                         \<lparr>Option = option, Count = areq_WritableVolumeCount req, Force = True,
                          Reason = ''grpc volume grow''\<rparr>;
                       replicaCount = replicaCount req replicaPlacement
                   in if AvailableSpaceFor ms option <s replicaCount
                      then (Inl (OnlyVolumesLeft (AvailableSpaceFor ms option) replicaCount), [])
                      else
                        let err = (if \<not> DataCenterExists ms (DataCenter option)
                                   then Some (DataCenterNotFound (DataCenter option))
                                   else None)
                        in (Inr (), DoAutomaticVolumeGrow ms volumeGrowRequest))))"

section \<open>\<open>ProcessGrowRequest\<close>: the dispatcher's loop body\<close>

text \<open>
  What the second goroutine of \<open>ProcessGrowRequest\<close> does with one request \<open>req\<close> received
  from \<open>volumeGrowthRequestChan\<close>, as the trace of its effects. \<open>ms\<close> gives the answers of
  \<open>IsLeader\<close> and \<open>ShouldGrowVolumes\<close> and the outcome of the growth; \<open>keys\<close> lists the keys
  of the \<open>sync.Map\<close> \<open>filter\<close> that \<open>Range\<close> visits. \<open>Range\<close> stops at the first key equal to \<open>req\<close>, so
  \<open>found\<close> is whether such a key exists.
\<close>

definition handle_grow_request ::
  "('loc, 'z) MasterServer_scheme \<Rightarrow> VolumeGrowRequest list \<Rightarrow> VolumeGrowRequest \<Rightarrow>
   'loc effect list" where
  "handle_grow_request ms keys req =
     (let option = Option req;
          vl = GetVolumeLayout (Collection option) (ReplicaPlacement option) (Ttl option)
                 (DiskType option)
      in if \<not> IsLeader ms then [Sleep 1000, DoneGrowRequest vl]
         else
           let found = list_ex (\<lambda>existingReq. Equals existingReq req) keys
           in if found \<or> (\<not> Force req \<and> \<not> ShouldGrowVolumes ms vl (Collection (Option req)))
              then [Sleep 211, DoneGrowRequest vl]
              else [FilterStore req,
                    Go (DoAutomaticVolumeGrow ms req @ [DoneGrowRequest vl, FilterDelete req])])"

section \<open>\<open>ProcessGrowRequest\<close>: the pipeline of scanner, dispatcher and growth tasks\<close>

text \<open>
  The two goroutines of \<open>ProcessGrowRequest\<close> and the goroutines the second one starts run
  concurrently on shared state: the guard of every layout, the request channel and the
  in-flight filter. The model is a step function driven by a schedule: each action names
  the goroutine that moves and carries what the server answers during that step. A step
  is one access to the shared state with the local computation around it. Nothing in this
  file closes the channel, so the dispatcher's \<open>break\<close> on a closed channel is never taken
  and the dispatcher loops for ever.
\<close>

text \<open>
  Where the scanner goroutine stands: at the top of its endless loop (also while it
  sleeps), at the head of the loop over layouts with the layouts still to visit, or at the
  head of the loop over data centers; and either about to run from there, or at a channel
  send that comes after \<open>AddGrowRequest\<close>, to continue from there.
\<close>

datatype scan_pos =
    AtTop
  | AtLayouts "string list" "VolumeLayoutCollection list"
  | AtDataCenters "string list" VolumeLayoutCollection "string list" "VolumeLayoutCollection list"

datatype scanner_pc =
    At scan_pos
  | Sending VolumeGrowRequest scan_pos

text \<open>
  Where the dispatcher goroutine stands. With a request in hand it is about to ask
  \<open>IsLeader\<close>, or about to range over the filter, or about to evaluate the condition of the
  discard with the \<open>found\<close> that \<open>Range\<close> has computed; after that it runs the effects
  of the branch it took, and \<open>Running []\<close> is the dispatcher at its receive.
\<close>

datatype 'loc dispatcher_pc =
    Running "'loc effect list"
  | AtIsLeader VolumeGrowRequest
  | AtRange VolumeGrowRequest
  | AtShouldGrow VolumeGrowRequest bool

record 'loc pipeline =
  growRequest :: "VolumeLayout \<Rightarrow> bool"
  chan :: "VolumeGrowRequest list"
  filter_keys :: "VolumeGrowRequest list"
  scanner :: scanner_pc
  dispatcher :: "'loc dispatcher_pc"
  tasks :: "'loc effect list list"

text \<open>
  \<open>tasks\<close> holds what is left of every goroutine started for an accepted request.
\<close>

definition init_pipeline :: "'loc pipeline" where
  "init_pipeline =
     \<lparr>growRequest = (\<lambda>vl. False), chan = [], filter_keys = [], scanner = At AtTop,
      dispatcher = Running [], tasks = []\<rparr>"

text \<open>The layout \<open>GetVolumeLayout\<close> resolves the option of a request to.\<close>

definition layout_of :: "VolumeGrowRequest \<Rightarrow> VolumeLayout" where
  "layout_of req =
     GetVolumeLayout (Collection (Option req)) (ReplicaPlacement (Option req)) (Ttl (Option req))
       (DiskType (Option req))"

text \<open>
  Modelled from the spec: \<open>HasGrowRequest\<close>, \<open>AddGrowRequest\<close> and \<open>DoneGrowRequest\<close> of a
  volume layout are declared outside this file; by the spec they read, set and clear the
  boolean guard \<open>growRequestInFlight\<close> of the layout, and setting it twice is setting it once.
\<close>

definition HasGrowRequest :: "'loc pipeline \<Rightarrow> VolumeLayout \<Rightarrow> bool" where
  "HasGrowRequest s vl = growRequest s vl"

definition AddGrowRequest :: "VolumeLayout \<Rightarrow> 'loc pipeline \<Rightarrow> 'loc pipeline" where
  "AddGrowRequest vl s = s\<lparr>growRequest := (growRequest s)(vl := True)\<rparr>"

definition DoneGrowRequest_op :: "VolumeLayout \<Rightarrow> 'loc pipeline \<Rightarrow> 'loc pipeline" where
  "DoneGrowRequest_op vl s = s\<lparr>growRequest := (growRequest s)(vl := False)\<rparr>"

text \<open>
  One step of the scanner goroutine. The channel has room for \<open>cap\<close> requests; a send to
  a full channel blocks, which is no step (\<open>None\<close>).
\<close>

definition scanner_step ::
  "nat \<Rightarrow> ('loc, 'z) MasterServer_scheme \<Rightarrow> 'loc pipeline \<Rightarrow> 'loc pipeline option" where
  "scanner_step cap ms s =
     (case scanner s of
        At AtTop \<Rightarrow>
          if \<not> IsLeader ms then Some s
          else Some (s\<lparr>scanner :=
                      At (AtLayouts (ListDataCenters ms) (ListVolumeLayoutCollections ms))\<rparr>)
      | At (AtLayouts dcs []) \<Rightarrow> Some (s\<lparr>scanner := At AtTop\<rparr>)
      | At (AtLayouts dcs (vlc # rest)) \<Rightarrow>
          (let vl = vlc_VolumeLayout vlc
           in if HasGrowRequest s vl then Some (s\<lparr>scanner := At (AtLayouts dcs rest)\<rparr>)
              else if ShouldGrowVolumes ms vl (vlc_Collection vlc)
              then Some ((AddGrowRequest vl s)
                     \<lparr>scanner := Sending
                        \<lparr>Option = ToGrowOption vlc, Count = GetLastGrowCount ms vl, Force = False,
                         Reason = ''collection autogrow''\<rparr>
                        (AtLayouts dcs rest)\<rparr>)
              else Some (s\<lparr>scanner := At (AtDataCenters dcs vlc dcs rest)\<rparr>))
      | At (AtDataCenters dcs vlc [] rest) \<Rightarrow> Some (s\<lparr>scanner := At (AtLayouts dcs rest)\<rparr>)
      | At (AtDataCenters dcs vlc (dc # ds) rest) \<Rightarrow>
          (let vl = vlc_VolumeLayout vlc
           in if ShouldGrowVolumesByDataNode ms vl ''DataCenter'' dc
              then Some ((AddGrowRequest vl s)
                     \<lparr>scanner := Sending
                        \<lparr>Option = (ToGrowOption vlc)\<lparr>DataCenter := dc\<rparr>,
                         Count = GetLastGrowCount ms vl, Force = True,
                         Reason = ''per-dc autogrow''\<rparr>
                        (AtDataCenters dcs vlc ds rest)\<rparr>)
              else Some (s\<lparr>scanner := At (AtDataCenters dcs vlc ds rest)\<rparr>))
      | Sending req k \<Rightarrow>
          if length (chan s) < cap then Some (s\<lparr>chan := chan s @ [req], scanner := At k\<rparr>)
          else None)"

text \<open>What one effect does to the shared state.\<close>

fun exec_effect :: "'loc effect \<Rightarrow> 'loc pipeline \<Rightarrow> 'loc pipeline" where
  "exec_effect (DoneGrowRequest vl) s = DoneGrowRequest_op vl s"
| "exec_effect (FilterStore req) s = s\<lparr>filter_keys := filter_keys s @ [req]\<rparr>"
| "exec_effect (FilterDelete req) s = s\<lparr>filter_keys := remove1 req (filter_keys s)\<rparr>"
| "exec_effect (Go body) s = s\<lparr>tasks := tasks s @ [body]\<rparr>"
| "exec_effect (Sleep ms) s = s"
| "exec_effect (CallAutomaticGrowByType option count) s = s"
| "exec_effect (BroadcastToClients r) s = s"

text \<open>
  One step of the dispatcher goroutine, each with one access to the shared state at most.
  The receive takes the oldest request of the channel; when the channel is empty and the
  scanner stands at its send, the request is handed over directly (the only way through a
  channel without buffer); with nothing to receive it blocks. Then \<open>IsLeader\<close> is asked;
  then \<open>filter.Range\<close> reads the filter as it is at that moment; then the condition of the
  discard is evaluated with that \<open>found\<close>; then the effects of the branch run one by one.
  Other goroutines can move between any two of these steps. The goroutine of an accepted
  request is started with the outcome of its growth already fixed by \<open>ms\<close>; that outcome
  has no bearing on guards, channel or filter.
\<close>

definition dispatcher_step ::
  "('loc, 'z) MasterServer_scheme \<Rightarrow> 'loc pipeline \<Rightarrow> 'loc pipeline option" where
  "dispatcher_step ms s =
     (case dispatcher s of
        Running [] \<Rightarrow>
          (case chan s of
             req # rest \<Rightarrow> Some (s\<lparr>chan := rest, dispatcher := AtIsLeader req\<rparr>)
           | [] \<Rightarrow>
               (case scanner s of
                  Sending req k \<Rightarrow> Some (s\<lparr>scanner := At k, dispatcher := AtIsLeader req\<rparr>)
                | At k \<Rightarrow> None))
      | AtIsLeader req \<Rightarrow>
          if \<not> IsLeader ms
          then Some (s\<lparr>dispatcher := Running [Sleep 1000, DoneGrowRequest (layout_of req)]\<rparr>)
          else Some (s\<lparr>dispatcher := AtRange req\<rparr>)
      | AtRange req \<Rightarrow>
          Some (s\<lparr>dispatcher :=
                  AtShouldGrow req
                    (list_ex (\<lambda>existingReq. Equals existingReq req) (filter_keys s))\<rparr>)
      | AtShouldGrow req found \<Rightarrow>
          if found \<or>
             (\<not> Force req \<and> \<not> ShouldGrowVolumes ms (layout_of req) (Collection (Option req)))
          then Some (s\<lparr>dispatcher := Running [Sleep 211, DoneGrowRequest (layout_of req)]\<rparr>)
          else Some (s\<lparr>dispatcher :=
                       Running
                         [FilterStore req,
                          Go (DoAutomaticVolumeGrow ms req @
                              [DoneGrowRequest (layout_of req), FilterDelete req])]\<rparr>)
      | Running (e # es) \<Rightarrow> Some (exec_effect e (s\<lparr>dispatcher := Running es\<rparr>)))"

definition task_step :: "nat \<Rightarrow> 'loc pipeline \<Rightarrow> 'loc pipeline option" where
  "task_step i s =
     (if i < length (tasks s)
      then (case tasks s ! i of
              [] \<Rightarrow> None
            | e # es \<Rightarrow> Some (exec_effect e (s\<lparr>tasks := (tasks s)[i := es]\<rparr>)))
      else None)"

datatype 'loc action =
    Scan "'loc MasterServer"
  | Dispatch "'loc MasterServer"
  | Task nat

fun step :: "nat \<Rightarrow> 'loc action \<Rightarrow> 'loc pipeline \<Rightarrow> 'loc pipeline option" where
  "step cap (Scan ms) s = scanner_step cap ms s"
| "step cap (Dispatch ms) s = dispatcher_step ms s"
| "step cap (Task i) s = task_step i s"

fun run :: "nat \<Rightarrow> 'loc action list \<Rightarrow> 'loc pipeline \<Rightarrow> 'loc pipeline option" where
  "run cap [] s = Some s"
| "run cap (a # as) s = (case step cap a s of None \<Rightarrow> None | Some s' \<Rightarrow> run cap as s')"

definition reachable :: "nat \<Rightarrow> 'loc pipeline \<Rightarrow> bool" where
  "reachable cap s = (\<exists>as. run cap as init_pipeline = Some s)"

text \<open>
  The requests of a layout that are in the pipeline: the one the scanner is sending, those
  in the channel, the one the dispatcher has in hand, and those whose \<open>DoneGrowRequest\<close>
  the dispatcher or a growth task has still to call.
\<close>

fun in_hand :: "'loc dispatcher_pc \<Rightarrow> VolumeGrowRequest list" where
  "in_hand (Running es) = []"
| "in_hand (AtIsLeader req) = [req]"
| "in_hand (AtRange req) = [req]"
| "in_hand (AtShouldGrow req found) = [req]"

fun running :: "'loc dispatcher_pc \<Rightarrow> 'loc effect list" where
  "running (Running es) = es"
| "running (AtIsLeader req) = []"
| "running (AtRange req) = []"
| "running (AtShouldGrow req found) = []"

fun sending :: "scanner_pc \<Rightarrow> VolumeGrowRequest list" where
  "sending (Sending req k) = [req]"
| "sending (At k) = []"

text \<open>How many calls of \<open>DoneGrowRequest\<close> on \<open>vl\<close> a trace still holds.\<close>

definition owed :: "'loc effect list \<Rightarrow> VolumeLayout \<Rightarrow> nat" where
  "owed es vl = count_list (done_calls (flatten es)) vl"

definition pending :: "'loc pipeline \<Rightarrow> VolumeLayout \<Rightarrow> nat" where
  "pending s vl =
     length (filter (\<lambda>req. layout_of req = vl)
               (sending (scanner s) @ chan s @ in_hand (dispatcher s)))
     + owed (running (dispatcher s)) vl
     + sum_list (map (\<lambda>t. owed t vl) (tasks s))"


section \<open>The vocabulary of the specification for \<open>LookupVolume\<close>\<close>

text \<open>
  The index of the first comma of an input, if it has one; an input is a file id when its
  first comma comes after a non-empty volume id, and the volume id of a file id is what
  stands before that comma.
\<close>

definition first_comma :: "string \<Rightarrow> nat option" where
  "first_comma s =
     (if CHR '','' \<in> set s then Some (length (takeWhile (\<lambda>c. c \<noteq> CHR '','') s)) else None)"

definition is_file_id :: "string \<Rightarrow> bool" where
  "is_file_id s = (case first_comma s of Some i \<Rightarrow> 1 \<le> i | None \<Rightarrow> False)"

definition file_vid :: "string \<Rightarrow> string" where
  "file_vid s = (if is_file_id s then takeWhile (\<lambda>c. c \<noteq> CHR '','') s else s)"

section \<open>A small cluster\<close>

text \<open>
  A master with three data centers, used to run the definitions on concrete inputs:
  volume 3 on one node, volume 7 on two, \<open>dc2\<close> with a single free slot, one layout that
  is short of volumes in \<open>dc1\<close> and \<open>dc2\<close>.
\<close>

definition node_a :: Location where
  "node_a = \<lparr>loc_Url = ''10.0.0.1:8080'', loc_PublicUrl = ''a.example:8080'',
             loc_DataCenter = ''dc1'', loc_GrpcPort = 18080\<rparr>"

definition node_b :: Location where
  "node_b = \<lparr>loc_Url = ''10.0.0.2:8080'', loc_PublicUrl = ''b.example:8080'',
             loc_DataCenter = ''dc2'', loc_GrpcPort = 18080\<rparr>"

definition example_volumes :: "string \<rightharpoonup> LookupResult" where
  "example_volumes =
     map_of
       [(''3'', \<lparr>VolumeOrFileId = ''3'', Locations = [node_a], Error = []\<rparr>),
        (''7'', \<lparr>VolumeOrFileId = ''7'', Locations = [node_a, node_b], Error = []\<rparr>),
        ('',abc'', \<lparr>VolumeOrFileId = '',abc'', Locations = [], Error = ''unknown volume id''\<rparr>)]"

definition example_replication :: "string \<Rightarrow> error + ReplicaPlacement" where
  "example_replication s =
     (if s = ''000''
      then Inr \<lparr>DiffDataCenterCount = 0, DiffRackCount = 0, SameRackCount = 0\<rparr>
      else if s = ''001''
      then Inr \<lparr>DiffDataCenterCount = 0, DiffRackCount = 0, SameRackCount = 1\<rparr>
      else if s = ''010''
      then Inr \<lparr>DiffDataCenterCount = 0, DiffRackCount = 1, SameRackCount = 0\<rparr>
      else Inl (ExternalError ''unknown replication''))"

definition example_ttl :: "string \<Rightarrow> error + TTL" where
  "example_ttl s = (if s = [] then Inr (TTL 0 0) else Inl (ExternalError ''unknown ttl''))"

definition example_layout :: VolumeLayoutCollection where
  "example_layout =
     \<lparr>vlc_Collection = [],
      vlc_rp = \<lparr>DiffDataCenterCount = 0, DiffRackCount = 0, SameRackCount = 1\<rparr>,
      vlc_ttl = TTL 0 0, vlc_diskType = []\<rparr>"

definition example_grow :: "VolumeGrowOption \<Rightarrow> uint32 \<Rightarrow> string list \<times> error option" where
  "example_grow option count =
     (if DataCenter option \<in> set [[], ''dc1'', ''dc2'', ''dc3'']
      then (replicate (unat count) ''10.0.0.1:8080'', None)
      else ([], Some (ExternalError ''no free data center'')))"

definition example_master :: "string MasterServer" where
  "example_master =
     \<lparr>IsLeader = True, DefaultReplicaPlacement = ''000'', VolumeSizeLimitMB = 30000,
      preallocateSize = 0, SigningKey = ''secret'', ExpiresAfterSec = 10,
      GetMaxVolumeCount = 90,
      AvailableSpaceFor = (\<lambda>option. if DataCenter option = ''dc2'' then 1 else 30),
      DataCenterExists = (\<lambda>dc. dc \<in> set [''dc1'', ''dc2'', ''dc3'']),
      Stats = (\<lambda>vl. \<lparr>stats_UsedSize = 4096, stats_FileCount = 12\<rparr>),
      NewReplicaPlacementFromString = example_replication,
      ReadTTL = example_ttl,
      ToDiskType = (\<lambda>s. s),
      lookupVolumeId = (\<lambda>ids collection. example_volumes),
      GenJwtForVolumeServer = (\<lambda>key expires fid. ''jwt:'' @ fid),
      AutomaticGrowByType = example_grow,
      ListDataCenters = [''dc1'', ''dc2''],
      ListVolumeLayoutCollections = [example_layout],
      ShouldGrowVolumes = (\<lambda>vl collection. False),
      ShouldGrowVolumesByDataNode = (\<lambda>vl scope dc. True),
      GetLastGrowCount = (\<lambda>vl. 1)\<rparr>"

definition example_assign :: "string \<Rightarrow> string \<Rightarrow> uint32 \<Rightarrow> AssignRequest" where
  "example_assign replication dc n =
     \<lparr>areq_Replication = replication, areq_Collection = [], areq_Ttl = [], areq_DiskType = [],
      areq_DataCenter = dc, areq_Rack = [], areq_DataNode = [], areq_MemoryMapMaxSizeMb = 0,
      areq_WritableVolumeCount = n\<rparr>"

definition example_request :: "string \<Rightarrow> VolumeGrowRequest" where
  "example_request dc =
     \<lparr>Option = (ToGrowOption example_layout)\<lparr>DataCenter := dc\<rparr>, Count = 1, Force = True,
      Reason = ''per-dc autogrow''\<rparr>"

text \<open>
  Schedules from the initial state. In the first only the scanner runs, on a channel with
  room for two requests. In the second the channel has no buffer: the dispatcher takes the
  request for \<open>dc1\<close> from the scanner, accepts it and starts its growth, then the scanner
  goes on to \<open>dc2\<close>.
\<close>

definition scan_schedule :: "string action list" where
  "scan_schedule =
     [Scan example_master, Scan example_master, Scan example_master, Scan example_master,
      Scan example_master, Scan example_master]"

definition handoff_schedule :: "string action list" where
  "handoff_schedule =
     [Scan example_master, Scan example_master, Scan example_master,
      Dispatch example_master, Dispatch example_master, Dispatch example_master,
      Dispatch example_master, Dispatch example_master, Dispatch example_master,
      Scan example_master]"

text \<open>
  The second schedule continued: the request for \<open>dc2\<close> is accepted too, its growth
  finishes and clears the guard while the growth for \<open>dc1\<close> still runs, and the next pass
  of the scanner publishes a request for \<open>dc1\<close> again, which the dispatcher receives.
\<close>

definition republish_schedule :: "string action list" where
  "republish_schedule =
     handoff_schedule @
     [Dispatch example_master, Dispatch example_master, Dispatch example_master,
      Dispatch example_master, Dispatch example_master, Dispatch example_master,
      Task 1, Task 1, Task 1,
      Scan example_master, Scan example_master, Scan example_master, Scan example_master,
      Scan example_master, Dispatch example_master]"


definition late_schedule :: "string action list" where
  "late_schedule =
     republish_schedule @
     [Task 0, Task 0, Task 0, Task 0, Dispatch example_master, Dispatch example_master,
      Dispatch example_master]"

text \<open>The body of the goroutine started for the request of a data center.\<close>

definition example_body :: "string \<Rightarrow> string effect list" where
  "example_body dc =
     DoAutomaticVolumeGrow example_master (example_request dc) @
     [DoneGrowRequest (vlc_VolumeLayout example_layout), FilterDelete (example_request dc)]"


section \<open>Invariants of the pipeline\<close>

text \<open>While the guard of a layout is set, a request for it is in the pipeline.\<close>

definition guard_inv :: "'loc pipeline \<Rightarrow> bool" where
  "guard_inv s = (\<forall>vl. growRequest s vl \<longrightarrow> 1 \<le> pending s vl)"







section \<open>Properties of \<open>LookupVolume\<close>\<close>

lemma strings_Index_takeWhile:
  "strings_Index s c = (if c \<in> set s then int (length (takeWhile (\<lambda>x. x \<noteq> c) s)) else -1)"
  by (induction s) (auto simp: Let_def)

lemma strings_Index_pos_iff: "(strings_Index s (CHR '','') > 0) = is_file_id s"
  by (auto simp: strings_Index_takeWhile is_file_id_def first_comma_def Suc_le_eq)

lemma take_length_takeWhile: "take (length (takeWhile P s)) s = takeWhile P s"
  by (induction s) auto

lemma lookup_vid_file_vid: "lookup_vid s = file_vid s"
  unfolding lookup_vid_def file_vid_def Let_def strings_Index_pos_iff
  by (auto simp: strings_Index_takeWhile take_length_takeWhile is_file_id_def first_comma_def
      split: if_splits)

lemma LookupVolume_loop_map_filter:
  "LookupVolume_loop ms m ids resp =
     resp @ List.map_filter (\<lambda>x. map_option (lookup_entry ms x) (m (lookup_vid x))) ids"
  by (induction ids arbitrary: resp) (auto simp: List.map_filter_simps split: option.splits)

lemma LookupVolume_map_filter:
  "LookupVolume ms ids c =
     Inr (List.map_filter
            (\<lambda>x. map_option (lookup_entry ms x) (lookupVolumeId ms ids c (lookup_vid x))) ids)"
  by (simp add: LookupVolume_def LookupVolume_loop_map_filter)

lemma list_all2_map_filter:
  "(\<And>x y. f x = Some y \<Longrightarrow> P x y) \<Longrightarrow>
   list_all2 P (filter (\<lambda>x. f x \<noteq> None) xs) (List.map_filter f xs)"
  by (induction xs) (auto simp: List.map_filter_simps split: option.splits)

lemma lookup_entry_fields:
  "vil_VolumeOrFileId (lookup_entry ms x r) = VolumeOrFileId r"
  "vil_Locations (lookup_entry ms x r) = map to_pb_Location (Locations r)"
  "vil_Error (lookup_entry ms x r) = Error r"
  "vil_Auth (lookup_entry ms x r) =
     (if is_file_id x
      then GenJwtForVolumeServer ms (SigningKey ms) (ExpiresAfterSec ms) (VolumeOrFileId r)
      else [])"
  by (simp_all add: lookup_entry_def Let_def strings_Index_pos_iff)

lemma is_file_id_leading_comma: "\<not> is_file_id (CHR '','' # rest)"
  by (simp add: is_file_id_def first_comma_def)

lemma example_volumes_simps:
  "example_volumes ''3'' = Some \<lparr>VolumeOrFileId = ''3'', Locations = [node_a], Error = []\<rparr>"
  "example_volumes ''7'' = Some \<lparr>VolumeOrFileId = ''7'', Locations = [node_a, node_b], Error = []\<rparr>"
  "example_volumes ''999'' = None"
  "example_volumes '',abc'' = Some \<lparr>VolumeOrFileId = '',abc'', Locations = [], Error = ''unknown volume id''\<rparr>"
  by (simp_all add: example_volumes_def)

lemma example_master_lookup:
  "lookupVolumeId example_master ids c = example_volumes"
  "GenJwtForVolumeServer example_master k e fid = ''jwt:'' @ fid"
  by (simp_all add: example_master_def)

text \<open>
  Claim C6, as stated, at the input \<open>,abc\<close>: the input contains a comma and what stands
  before its first comma, the empty string, is not a known volume id; still the response
  has an entry for it, looked up under the whole string, and the entry carries no token
  although the signer never returns an empty one.
\<close>

theorem LookupVolume_leading_comma_counterexample:
  "LookupVolume example_master ['',abc''] [] =
     Inr [\<lparr>vil_VolumeOrFileId = '',abc'', vil_Locations = [], vil_Error = ''unknown volume id'',
           vil_Auth = []\<rparr>]
   \<and> first_comma '',abc'' = Some 0
   \<and> take 0 '',abc'' = []
   \<and> example_volumes [] = None
   \<and> GenJwtForVolumeServer example_master (SigningKey example_master)
        (ExpiresAfterSec example_master) '',abc'' \<noteq> []"
  by (simp add: LookupVolume_def lookup_vid_def lookup_entry_def example_master_lookup
      example_volumes_simps first_comma_def) (simp add: example_volumes_def)

text \<open>
  Claim C6, amended: an input is a file id when its first comma is at index 1 or later,
  and only then is it cut at that comma; otherwise the whole input is the volume id. The
  call returns no error, and the response has, in input order, one entry for every input
  whose volume id is found in the lookup result and none for the others. The entry is
  built from that result, and its token is what the signer returns for the result's id
  when the input is a file id, and empty otherwise; so with a signer that never returns
  an empty token, the token is non-empty exactly for file ids.
\<close>

theorem LookupVolume_entries:
  "\<exists>resp. LookupVolume ms ids c = Inr resp \<and>
     list_all2
       (\<lambda>x e. \<exists>result. lookupVolumeId ms ids c (file_vid x) = Some result \<and>
          vil_VolumeOrFileId e = VolumeOrFileId result \<and>
          vil_Locations e = map to_pb_Location (Locations result) \<and>
          vil_Error e = Error result \<and>
          vil_Auth e =
            (if is_file_id x
             then GenJwtForVolumeServer ms (SigningKey ms) (ExpiresAfterSec ms)
                    (VolumeOrFileId result)
             else []) \<and>
          ((\<forall>fid. GenJwtForVolumeServer ms (SigningKey ms) (ExpiresAfterSec ms) fid \<noteq> []) \<longrightarrow>
           (vil_Auth e \<noteq> [] \<longleftrightarrow> is_file_id x)))
       (filter (\<lambda>x. lookupVolumeId ms ids c (file_vid x) \<noteq> None) ids) resp"
proof -
  let ?m = "lookupVolumeId ms ids c"
  let ?f = "\<lambda>x. map_option (lookup_entry ms x) (?m (file_vid x))"
  have eq: "LookupVolume ms ids c = Inr (List.map_filter ?f ids)"
    by (simp add: LookupVolume_map_filter lookup_vid_file_vid)
  have flt: "(\<lambda>x. ?m (file_vid x) \<noteq> None) = (\<lambda>x. ?f x \<noteq> None)"
    by (rule ext) simp
  have "list_all2
          (\<lambda>x e. \<exists>result. ?m (file_vid x) = Some result \<and>
             vil_VolumeOrFileId e = VolumeOrFileId result \<and>
             vil_Locations e = map to_pb_Location (Locations result) \<and>
             vil_Error e = Error result \<and>
             vil_Auth e =
               (if is_file_id x
                then GenJwtForVolumeServer ms (SigningKey ms) (ExpiresAfterSec ms)
                       (VolumeOrFileId result)
                else []) \<and>
             ((\<forall>fid. GenJwtForVolumeServer ms (SigningKey ms) (ExpiresAfterSec ms) fid \<noteq> []) \<longrightarrow>
              (vil_Auth e \<noteq> [] \<longleftrightarrow> is_file_id x)))
          (filter (\<lambda>x. ?f x \<noteq> None) ids) (List.map_filter ?f ids)"
    by (rule list_all2_map_filter) (auto simp: lookup_entry_fields)
  then show ?thesis
    by (simp only: eq flt sum.inject simp_thms ex_simps)
qed

lemma example_file_ids:
  "file_vid ''3'' = ''3''" "file_vid ''7,abc'' = ''7''" "file_vid ''999'' = ''999''"
  "\<not> is_file_id ''3''" "is_file_id ''7,abc''" "\<not> is_file_id ''999''"
  by (simp_all add: file_vid_def is_file_id_def first_comma_def)

theorem LookupVolume_entries_witness:
  "LookupVolume example_master [''3'', ''7,abc'', ''999''] [] =
     Inr [\<lparr>vil_VolumeOrFileId = ''3'', vil_Locations = [to_pb_Location node_a],
           vil_Error = [], vil_Auth = []\<rparr>,
          \<lparr>vil_VolumeOrFileId = ''7'',
           vil_Locations = [to_pb_Location node_a, to_pb_Location node_b],
           vil_Error = [], vil_Auth = ''jwt:7''\<rparr>]
   \<and> GenJwtForVolumeServer example_master (SigningKey example_master)
        (ExpiresAfterSec example_master) ''7'' \<noteq> []"
  using LookupVolume_entries [of example_master "[''3'', ''7,abc'', ''999'']" "[]"]
  by (simp add: LookupVolume_map_filter lookup_vid_file_vid example_file_ids
      example_master_lookup example_volumes_simps List.map_filter_simps lookup_entry_def)

text \<open>
  Claim C10: an input that begins with a comma is looked up under the whole string, comma
  included, and its entry has no token; the cut at the comma and the token are for inputs
  whose first comma is at index 1 or later, and for those only.
\<close>

theorem LookupVolume_comma_at_index_zero:
  "lookup_vid (CHR '','' # rest) = CHR '','' # rest
   \<and> vil_Auth (lookup_entry ms (CHR '','' # rest) result) = []
   \<and> LookupVolume ms [CHR '','' # rest] c =
       Inr (case lookupVolumeId ms [CHR '','' # rest] c (CHR '','' # rest) of
              None \<Rightarrow> []
            | Some result \<Rightarrow>
                [\<lparr>vil_VolumeOrFileId = VolumeOrFileId result,
                  vil_Locations = map to_pb_Location (Locations result),
                  vil_Error = Error result, vil_Auth = []\<rparr>])
   \<and> ((lookup_vid x \<noteq> x \<or> vil_Auth (lookup_entry ms x result) \<noteq> []) \<longrightarrow>
        (\<exists>i. first_comma x = Some i \<and> 1 \<le> i))
   \<and> (\<forall>i. first_comma x = Some i \<and> 1 \<le> i \<longrightarrow>
        lookup_vid x = take i x \<and>
        vil_Auth (lookup_entry ms x result) =
          GenJwtForVolumeServer ms (SigningKey ms) (ExpiresAfterSec ms) (VolumeOrFileId result))"
  apply (intro conjI)
  subgoal by (simp add: lookup_vid_def)
  subgoal by (simp add: lookup_entry_fields is_file_id_leading_comma)
  subgoal by (simp add: LookupVolume_def lookup_vid_def lookup_entry_def split: option.splits)
  subgoal by (auto simp: lookup_vid_file_vid lookup_entry_fields file_vid_def is_file_id_def
        split: option.splits if_splits)
  subgoal by (auto simp: lookup_vid_file_vid lookup_entry_fields file_vid_def is_file_id_def
        first_comma_def take_length_takeWhile split: option.splits if_splits)
  done

theorem LookupVolume_comma_at_index_zero_witness:
  "lookup_vid '',abc'' = '',abc''
   \<and> LookupVolume example_master ['',abc''] [] =
       Inr [\<lparr>vil_VolumeOrFileId = '',abc'', vil_Locations = [],
             vil_Error = ''unknown volume id'', vil_Auth = []\<rparr>]
   \<and> first_comma ''7,abc'' = Some 1
   \<and> lookup_vid ''7,abc'' = ''7''
   \<and> vil_Auth (lookup_entry example_master ''7,abc''
        \<lparr>VolumeOrFileId = ''7'', Locations = [node_a, node_b], Error = []\<rparr>) = ''jwt:7''"
  using LookupVolume_comma_at_index_zero
    [of "''abc''" example_master "\<lparr>VolumeOrFileId = ''7'', Locations = [node_a, node_b], Error = []\<rparr>" "[]" "''7,abc''"]
  by (simp add: example_master_lookup example_volumes_simps first_comma_def)

section \<open>Properties of \<open>Statistics\<close>\<close>

lemma uint_sint_mod:
  fixes m :: "'a::len word"
  shows "uint m = sint m mod 2 ^ LENGTH('a)"
proof -
  have "uint m = uint (word_of_int (sint m) :: 'a word)"
    by simp
  also have "\<dots> = sint m mod 2 ^ LENGTH('a)"
    by (simp only: uint_word_of_int)
  finally show ?thesis .
qed

lemma totalSize_mod:
  fixes m :: int64 and l :: uint32
  shows "uint (m * ucast l * 1024 * 1024) = (sint m * (uint l * 1048576)) mod 2 ^ 64"
proof -
  have ul: "uint (ucast l :: int64) = uint l"
    by (simp add: uint_up_ucast is_up)
  have um: "uint m = sint m mod 2 ^ 64"
    using uint_sint_mod [of m] by simp
  have "uint (m * ucast l * 1024 * 1024) = uint (m * (ucast l * 1048576))"
    by (simp add: mult.assoc)
  also have "\<dots> = (uint m * (uint l * 1048576)) mod 2 ^ 64"
    by (simp add: uint_word_ariths ul mod_mult_right_eq)
  also have "\<dots> = (sint m mod 2 ^ 64 * (uint l * 1048576)) mod 2 ^ 64"
    by (simp only: um)
  also have "\<dots> = (sint m * (uint l * 1048576)) mod 2 ^ 64"
    by (simp only: mod_mult_left_eq)
  finally show ?thesis .
qed

lemma totalSize_in_range:
  fixes m :: int64 and l :: uint32
  assumes "0 \<le> sint m" and "sint m * (uint l * 1048576) < 2 ^ 64"
  shows "uint (m * ucast l * 1024 * 1024) = sint m * (uint l * 1048576)"
proof -
  have "0 \<le> sint m * (uint l * 1048576)"
    using assms(1) by simp
  then show ?thesis
    using assms(2) by (simp only: totalSize_mod mod_pos_pos_trivial)
qed

text \<open>
  Claim C8, amended: off the leader \<open>Statistics\<close> fails with \<open>NotLeaderError\<close>; an error of
  the replication parser, or else of the TTL parser, is returned as it is; otherwise used
  size and file count are those of the layout, and the total size is the product of the
  topology's maximal volume count and the volume size limit in bytes (the limit in MB
  times 1024 times 1024) whenever that count is not negative and the product is below
  \<open>2 ^ 64\<close>; in general it is that product modulo \<open>2 ^ 64\<close>.
\<close>

theorem Statistics_result:
  "(\<not> IsLeader ms \<longrightarrow> Statistics ms req = Inl NotLeaderError)
   \<and> (\<forall>err. IsLeader ms \<and>
          NewReplicaPlacementFromString ms
            (if sreq_Replication req = [] then DefaultReplicaPlacement ms else sreq_Replication req)
            = Inl err \<longrightarrow>
          Statistics ms req = Inl err)
   \<and> (\<forall>rp err. IsLeader ms \<and>
          NewReplicaPlacementFromString ms
            (if sreq_Replication req = [] then DefaultReplicaPlacement ms else sreq_Replication req)
            = Inr rp \<and>
          ReadTTL ms (sreq_Ttl req) = Inl err \<longrightarrow>
          Statistics ms req = Inl err)
   \<and> (\<forall>rp ttl. IsLeader ms \<and>
          NewReplicaPlacementFromString ms
            (if sreq_Replication req = [] then DefaultReplicaPlacement ms else sreq_Replication req)
            = Inr rp \<and>
          ReadTTL ms (sreq_Ttl req) = Inr ttl \<longrightarrow>
          (\<exists>resp. Statistics ms req = Inr resp \<and>
             UsedSize resp =
               stats_UsedSize (Stats ms (GetVolumeLayout (sreq_Collection req) rp ttl
                 (ToDiskType ms (sreq_DiskType req)))) \<and>
             FileCount resp =
               stats_FileCount (Stats ms (GetVolumeLayout (sreq_Collection req) rp ttl
                 (ToDiskType ms (sreq_DiskType req)))) \<and>
             uint (TotalSize resp) =
               (sint (GetMaxVolumeCount ms) * (uint (VolumeSizeLimitMB ms) * 1024 * 1024))
                 mod 2 ^ 64 \<and>
             (0 \<le> sint (GetMaxVolumeCount ms) \<and>
              sint (GetMaxVolumeCount ms) * (uint (VolumeSizeLimitMB ms) * 1024 * 1024) < 2 ^ 64 \<longrightarrow>
              uint (TotalSize resp) =
                sint (GetMaxVolumeCount ms) * (uint (VolumeSizeLimitMB ms) * 1024 * 1024))))"
proof (intro conjI allI impI)
  fix rp ttl
  assume ok: "IsLeader ms \<and>
      NewReplicaPlacementFromString ms
        (if sreq_Replication req = [] then DefaultReplicaPlacement ms else sreq_Replication req)
        = Inr rp \<and>
      ReadTTL ms (sreq_Ttl req) = Inr ttl"
  let ?vl = "GetVolumeLayout (sreq_Collection req) rp ttl (ToDiskType ms (sreq_DiskType req))"
  let ?resp = "\<lparr>TotalSize = GetMaxVolumeCount ms * ucast (VolumeSizeLimitMB ms) * 1024 * 1024,
      UsedSize = stats_UsedSize (Stats ms ?vl), FileCount = stats_FileCount (Stats ms ?vl)\<rparr>"
  have res: "Statistics ms req = Inr ?resp"
    using ok by (simp add: Statistics_def Let_def)
  have e: "uint (VolumeSizeLimitMB ms) * 1024 * 1024 = uint (VolumeSizeLimitMB ms) * 1048576"
    by simp
  have m: "uint (TotalSize ?resp) =
      (sint (GetMaxVolumeCount ms) * (uint (VolumeSizeLimitMB ms) * 1024 * 1024)) mod 2 ^ 64"
    unfolding e StatisticsResponse.select_convs by (rule totalSize_mod)
  have r: "0 \<le> sint (GetMaxVolumeCount ms) \<and>
      sint (GetMaxVolumeCount ms) * (uint (VolumeSizeLimitMB ms) * 1024 * 1024) < 2 ^ 64 \<longrightarrow>
      uint (TotalSize ?resp) =
        sint (GetMaxVolumeCount ms) * (uint (VolumeSizeLimitMB ms) * 1024 * 1024)"
    unfolding e StatisticsResponse.select_convs
    using totalSize_in_range [of "GetMaxVolumeCount ms" "VolumeSizeLimitMB ms"] by blast
  show "\<exists>resp. Statistics ms req = Inr resp \<and>
      UsedSize resp = stats_UsedSize (Stats ms ?vl) \<and>
      FileCount resp = stats_FileCount (Stats ms ?vl) \<and>
      uint (TotalSize resp) =
        (sint (GetMaxVolumeCount ms) * (uint (VolumeSizeLimitMB ms) * 1024 * 1024)) mod 2 ^ 64 \<and>
      (0 \<le> sint (GetMaxVolumeCount ms) \<and>
       sint (GetMaxVolumeCount ms) * (uint (VolumeSizeLimitMB ms) * 1024 * 1024) < 2 ^ 64 \<longrightarrow>
       uint (TotalSize resp) =
         sint (GetMaxVolumeCount ms) * (uint (VolumeSizeLimitMB ms) * 1024 * 1024))"
    using res m r by (intro exI [of _ ?resp] conjI) (simp_all only: StatisticsResponse.select_convs)
qed (simp_all add: Statistics_def Let_def)

lemma example_master_fields:
  "IsLeader example_master"
  "DefaultReplicaPlacement example_master = ''000''"
  "VolumeSizeLimitMB example_master = 30000"
  "preallocateSize example_master = 0"
  "GetMaxVolumeCount example_master = 90"
  "AvailableSpaceFor example_master = (\<lambda>option. if DataCenter option = ''dc2'' then 1 else 30)"
  "DataCenterExists example_master = (\<lambda>dc. dc \<in> set [''dc1'', ''dc2'', ''dc3''])"
  "Stats example_master = (\<lambda>vl. \<lparr>stats_UsedSize = 4096, stats_FileCount = 12\<rparr>)"
  "NewReplicaPlacementFromString example_master = example_replication"
  "ReadTTL example_master = example_ttl"
  "ToDiskType example_master = (\<lambda>s. s)"
  "AutomaticGrowByType example_master = example_grow"
  "ListDataCenters example_master = [''dc1'', ''dc2'']"
  "ListVolumeLayoutCollections example_master = [example_layout]"
  "ShouldGrowVolumes example_master = (\<lambda>vl collection. False)"
  "ShouldGrowVolumesByDataNode example_master = (\<lambda>vl scope dc. True)"
  "GetLastGrowCount example_master = (\<lambda>vl. 1)"
  by (simp_all add: example_master_def)

theorem Statistics_result_witness:
  "Statistics (example_master\<lparr>IsLeader := False\<rparr>)
      \<lparr>sreq_Replication = [], sreq_Collection = [], sreq_Ttl = [], sreq_DiskType = []\<rparr>
     = Inl NotLeaderError
   \<and> Statistics example_master
      \<lparr>sreq_Replication = ''xyz'', sreq_Collection = [], sreq_Ttl = [], sreq_DiskType = []\<rparr>
     = Inl (ExternalError ''unknown replication'')
   \<and> Statistics example_master
      \<lparr>sreq_Replication = [], sreq_Collection = [], sreq_Ttl = ''5q'', sreq_DiskType = []\<rparr>
     = Inl (ExternalError ''unknown ttl'')
   \<and> Statistics example_master
      \<lparr>sreq_Replication = [], sreq_Collection = [], sreq_Ttl = [], sreq_DiskType = []\<rparr>
     = Inr \<lparr>TotalSize = 2831155200000, UsedSize = 4096, FileCount = 12\<rparr>
   \<and> (0 :: int) \<le> sint (90 :: int64)
   \<and> sint (90 :: int64) * (uint (30000 :: uint32) * 1024 * 1024) < 2 ^ 64
   \<and> uint (2831155200000 :: uint64) = sint (90 :: int64) * (uint (30000 :: uint32) * 1024 * 1024)"
proof -
  note defs = Statistics_def Let_def example_master_fields example_replication_def
    example_ttl_def
  have a: "Statistics (example_master\<lparr>IsLeader := False\<rparr>)
      \<lparr>sreq_Replication = [], sreq_Collection = [], sreq_Ttl = [], sreq_DiskType = []\<rparr>
     = Inl NotLeaderError"
    using Statistics_result [of "example_master\<lparr>IsLeader := False\<rparr>"
        "\<lparr>sreq_Replication = [], sreq_Collection = [], sreq_Ttl = [], sreq_DiskType = []\<rparr>"]
    by simp
  have b: "Statistics example_master
      \<lparr>sreq_Replication = ''xyz'', sreq_Collection = [], sreq_Ttl = [], sreq_DiskType = []\<rparr>
     = Inl (ExternalError ''unknown replication'')"
    using Statistics_result [of example_master
        "\<lparr>sreq_Replication = ''xyz'', sreq_Collection = [], sreq_Ttl = [], sreq_DiskType = []\<rparr>"]
    by (simp add: example_master_fields example_replication_def)
  have c: "Statistics example_master
      \<lparr>sreq_Replication = [], sreq_Collection = [], sreq_Ttl = ''5q'', sreq_DiskType = []\<rparr>
     = Inl (ExternalError ''unknown ttl'')"
    using Statistics_result [of example_master
        "\<lparr>sreq_Replication = [], sreq_Collection = [], sreq_Ttl = ''5q'', sreq_DiskType = []\<rparr>"]
    by (simp add: example_master_fields example_replication_def example_ttl_def)
  have d: "Statistics example_master
      \<lparr>sreq_Replication = [], sreq_Collection = [], sreq_Ttl = [], sreq_DiskType = []\<rparr>
     = Inr \<lparr>TotalSize = 2831155200000, UsedSize = 4096, FileCount = 12\<rparr>"
    using Statistics_result [of example_master
        "\<lparr>sreq_Replication = [], sreq_Collection = [], sreq_Ttl = [], sreq_DiskType = []\<rparr>"]
    by (simp add: defs)
  show ?thesis
    using a b c d by simp
qed

text \<open>
  Claim C8, as stated, on the small cluster with a maximal volume count of \<open>2 ^ 33\<close>: the
  product with the limit of 30000 MB is above \<open>2 ^ 64\<close>, and the total size returned is not
  that product.
\<close>

theorem Statistics_total_size_wraps_counterexample:
  "Statistics (example_master\<lparr>GetMaxVolumeCount := 8589934592\<rparr>)
      \<lparr>sreq_Replication = [], sreq_Collection = [], sreq_Ttl = [], sreq_DiskType = []\<rparr>
     = Inr \<lparr>TotalSize = 11961560610296037376, UsedSize = 4096, FileCount = 12\<rparr>
   \<and> sint (8589934592 :: int64) * (uint (30000 :: uint32) * 1024 * 1024) = 270215977642229760000
   \<and> uint (11961560610296037376 :: uint64) \<noteq> 270215977642229760000"
  by (simp add: Statistics_def Let_def example_master_def example_replication_def
      example_ttl_def)

section \<open>Properties of \<open>DoAutomaticVolumeGrow\<close> and \<open>VolumeGrow\<close>\<close>

lemma broadcasts_broadcast_loop: "broadcasts (broadcast_loop locs) = map KeepConnectedResponse locs"
  by (induction locs) simp_all

lemma grow_calls_broadcast_loop: "grow_calls (broadcast_loop locs) = []"
  by (induction locs) simp_all

lemma done_calls_broadcast_loop: "done_calls (broadcast_loop locs) = []"
  by (induction locs) simp_all

lemma flatten_broadcast_loop: "flatten (broadcast_loop locs) = broadcast_loop locs"
  by (induction locs) simp_all

lemma done_calls_DoAutomaticVolumeGrow: "done_calls (DoAutomaticVolumeGrow ms req) = []"
  by (simp add: DoAutomaticVolumeGrow_def done_calls_broadcast_loop split: prod.splits)

lemma flatten_DoAutomaticVolumeGrow:
  "flatten (DoAutomaticVolumeGrow ms req) = DoAutomaticVolumeGrow ms req"
  by (simp add: DoAutomaticVolumeGrow_def flatten_broadcast_loop split: prod.splits)

text \<open>
  Claim C9: \<open>DoAutomaticVolumeGrow\<close> calls the growth engine once; when that returns an
  error nothing is broadcast, otherwise there is exactly one broadcast per new volume
  location, in the order of the locations.
\<close>

theorem DoAutomaticVolumeGrow_broadcasts:
  assumes "AutomaticGrowByType ms (Option req) (Count req) = (newVidLocations, err)"
  shows "(err \<noteq> None \<longrightarrow> broadcasts (DoAutomaticVolumeGrow ms req) = [])
       \<and> (err = None \<longrightarrow>
            broadcasts (DoAutomaticVolumeGrow ms req) = map KeepConnectedResponse newVidLocations
            \<and> length (broadcasts (DoAutomaticVolumeGrow ms req)) = length newVidLocations)
       \<and> grow_calls (DoAutomaticVolumeGrow ms req) = [(Option req, Count req)]"
  using assms
  by (simp add: DoAutomaticVolumeGrow_def broadcasts_broadcast_loop grow_calls_broadcast_loop)

theorem DoAutomaticVolumeGrow_broadcasts_witness:
  "broadcasts (DoAutomaticVolumeGrow example_master ((example_request ''dc1'')\<lparr>Count := 2\<rparr>))
     = [KeepConnectedResponse ''10.0.0.1:8080'', KeepConnectedResponse ''10.0.0.1:8080'']
   \<and> broadcasts (DoAutomaticVolumeGrow example_master (example_request ''dc9'')) = []"
proof -
  have a: "AutomaticGrowByType example_master (Option ((example_request ''dc1'')\<lparr>Count := 2\<rparr>))
      (Count ((example_request ''dc1'')\<lparr>Count := 2\<rparr>))
      = ([''10.0.0.1:8080'', ''10.0.0.1:8080''], None)"
  proof -
    have u: "unat (2 :: uint32) = 2"
      by simp
    have "replicate (unat (2 :: uint32)) ''10.0.0.1:8080'' = [''10.0.0.1:8080'', ''10.0.0.1:8080'']"
      unfolding u by (simp add: numeral_2_eq_2)
    then show ?thesis
      by (simp add: example_master_fields example_grow_def example_request_def)
  qed
  have b: "AutomaticGrowByType example_master (Option (example_request ''dc9''))
      (Count (example_request ''dc9'')) = ([], Some (ExternalError ''no free data center''))"
    by (simp add: example_master_fields example_grow_def example_request_def)
  show ?thesis
    using DoAutomaticVolumeGrow_broadcasts [OF a] DoAutomaticVolumeGrow_broadcasts [OF b]
    by simp
qed

lemma replicaCount_exact:
  assumes "0 \<le> GetCopyCount rp"
    and "uint (areq_WritableVolumeCount req) * GetCopyCount rp < 2 ^ 32"
  shows "sint (replicaCount req rp) = uint (areq_WritableVolumeCount req) * GetCopyCount rp"
proof -
  let ?w = "areq_WritableVolumeCount req * (word_of_int (GetCopyCount rp) :: uint32)"
  have nn: "0 \<le> uint (areq_WritableVolumeCount req) * GetCopyCount rp"
    using assms(1) by simp
  have "uint ?w = (uint (areq_WritableVolumeCount req) * (GetCopyCount rp mod 2 ^ 32)) mod 2 ^ 32"
    by (simp add: uint_word_ariths uint_word_of_int)
  also have "\<dots> = (uint (areq_WritableVolumeCount req) * GetCopyCount rp) mod 2 ^ 32"
    by (simp add: mod_mult_right_eq)
  also have "\<dots> = uint (areq_WritableVolumeCount req) * GetCopyCount rp"
    using assms(2) nn by simp
  finally have w: "uint ?w = uint (areq_WritableVolumeCount req) * GetCopyCount rp" .
  have "uint (ucast ?w :: int64) = uint ?w"
    by (simp add: uint_up_ucast is_up)
  moreover have "uint ?w < 2 ^ 32"
    using uint_lt2p [of ?w] by simp
  moreover have "signed_take_bit 63 (uint ?w) = uint ?w"
  proof (rule signed_take_bit_int_eq_self)
    have "- (2 ^ 63) \<le> (0 :: int)"
      by simp
    also have "0 \<le> uint ?w"
      by simp
    finally show "- (2 ^ 63) \<le> uint ?w" .
    show "uint ?w < 2 ^ 63"
      using uint_lt2p [of ?w] by simp
  qed
  ultimately have "sint (ucast ?w :: int64) = uint ?w"
    by (simp add: sint_uint)
  then show ?thesis
    by (simp add: replicaCount_def w)
qed

text \<open>
  Where the product of count and copy count fits 32 bits, the preflight does reject a
  request that asks for more replicas than there is space: the call fails with the error
  that reports both numbers, before the growth engine is called and before any broadcast.
\<close>

lemma VolumeGrow_insufficient_capacity_in_range:
  assumes "IsLeader ms"
    and "NewReplicaPlacementFromString ms
           (if areq_Replication req = [] then DefaultReplicaPlacement ms else areq_Replication req)
         = Inr rp"
    and "ReadTTL ms (areq_Ttl req) = Inr ttl"
    and "0 \<le> GetCopyCount rp"
    and "uint (areq_WritableVolumeCount req) * GetCopyCount rp < 2 ^ 32"
    and "sint (AvailableSpaceFor ms (volumeGrowOption ms req rp ttl))
           < uint (areq_WritableVolumeCount req) * GetCopyCount rp"
  shows "VolumeGrow ms req =
           (Inl (OnlyVolumesLeft (AvailableSpaceFor ms (volumeGrowOption ms req rp ttl))
                   (replicaCount req rp)), [])"
proof -
  have "AvailableSpaceFor ms (volumeGrowOption ms req rp ttl) <s replicaCount req rp"
    using assms(6) replicaCount_exact [OF assms(4,5)] by (simp add: word_sless_alt)
  then show ?thesis
    using assms(1-3) by (simp add: VolumeGrow_def Let_def)
qed

lemma VolumeGrow_one_slot_left:
  "VolumeGrow example_master (example_assign ''010'' ''dc2'' 3) = (Inl (OnlyVolumesLeft 1 6), [])"
  by (simp add: VolumeGrow_def Let_def example_master_fields example_assign_def
      example_replication_def example_ttl_def volumeGrowOption_def replicaCount_def
      GetCopyCount_def word_sless_alt)

lemma grow_calls_DoAutomaticVolumeGrow:
  "grow_calls (DoAutomaticVolumeGrow ms req) = [(Option req, Count req)]"
  by (simp add: DoAutomaticVolumeGrow_def grow_calls_broadcast_loop split: prod.splits)

text \<open>
  Claim C7 on the code: a request on the leader for \<open>2 ^ 31\<close> volumes with replication
  \<open>001\<close> (two copies each) asks for \<open>2 ^ 32\<close> replicas where one slot is free. The product
  is taken in \<open>uint32\<close> and is 0, so the capacity check passes: \<open>VolumeGrow\<close> calls the growth
  engine for \<open>2 ^ 31\<close> volumes and returns a nil error.
\<close>

theorem VolumeGrow_replica_count_wraps:
  "fst (VolumeGrow example_master (example_assign ''001'' ''dc2'' 2147483648)) = Inr ()
   \<and> grow_calls (snd (VolumeGrow example_master (example_assign ''001'' ''dc2'' 2147483648)))
       = [(\<lparr>Collection = [],
            ReplicaPlacement = \<lparr>DiffDataCenterCount = 0, DiffRackCount = 0, SameRackCount = 1\<rparr>,
            Ttl = TTL 0 0, DiskType = [], Preallocate = 0, DataCenter = ''dc2'', Rack = [],
            DataNode = [], MemoryMapMaxSizeMb = 0\<rparr>, 2147483648)]
   \<and> sint (AvailableSpaceFor example_master
        (volumeGrowOption example_master (example_assign ''001'' ''dc2'' 2147483648)
           \<lparr>DiffDataCenterCount = 0, DiffRackCount = 0, SameRackCount = 1\<rparr> (TTL 0 0))) = 1
   \<and> uint (2147483648 :: uint32)
        * GetCopyCount \<lparr>DiffDataCenterCount = 0, DiffRackCount = 0, SameRackCount = 1\<rparr>
       = 4294967296
   \<and> replicaCount (example_assign ''001'' ''dc2'' 2147483648)
        \<lparr>DiffDataCenterCount = 0, DiffRackCount = 0, SameRackCount = 1\<rparr> = 0"
  by (simp add: VolumeGrow_def Let_def example_master_fields example_assign_def
      example_replication_def example_ttl_def volumeGrowOption_def replicaCount_def
      GetCopyCount_def word_sless_alt grow_calls_DoAutomaticVolumeGrow)

text \<open>
  Claim C1 on the code: a request on the leader that pins the data center \<open>dc9\<close>, which
  the topology does not have, passes the capacity check; \<open>VolumeGrow\<close> then calls the growth
  engine and returns a nil error.
\<close>

theorem VolumeGrow_unknown_data_center_returns_nil:
  "VolumeGrow example_master (example_assign ''000'' ''dc9'' 1) =
     (Inr (),
      [CallAutomaticGrowByType
         \<lparr>Collection = [],
          ReplicaPlacement = \<lparr>DiffDataCenterCount = 0, DiffRackCount = 0, SameRackCount = 0\<rparr>,
          Ttl = TTL 0 0, DiskType = [], Preallocate = 0, DataCenter = ''dc9'', Rack = [],
          DataNode = [], MemoryMapMaxSizeMb = 0\<rparr> 1])
   \<and> \<not> DataCenterExists example_master ''dc9''"
  by (simp add: VolumeGrow_def Let_def example_master_fields example_assign_def
      example_replication_def example_ttl_def volumeGrowOption_def replicaCount_def
      GetCopyCount_def word_sless_alt DoAutomaticVolumeGrow_def example_grow_def)

section \<open>Properties of the dispatcher's loop body\<close>

lemma done_calls_append: "done_calls (xs @ ys) = done_calls xs @ done_calls ys"
  by (induction xs rule: done_calls.induct) simp_all

lemma flatten_append: "flatten (xs @ ys) = flatten xs @ flatten ys"
  by (induction xs rule: flatten.induct) simp_all

lemma layout_of_GetVolumeLayout:
  "GetVolumeLayout (Collection (Option req)) (ReplicaPlacement (Option req)) (Ttl (Option req))
     (DiskType (Option req)) = layout_of req"
  by (simp add: layout_of_def)

lemma handle_grow_request_cases:
  "handle_grow_request ms keys req =
     (if \<not> IsLeader ms then [Sleep 1000, DoneGrowRequest (layout_of req)]
      else if list_ex (\<lambda>existingReq. Equals existingReq req) keys
              \<or> (\<not> Force req \<and> \<not> ShouldGrowVolumes ms (layout_of req) (Collection (Option req)))
      then [Sleep 211, DoneGrowRequest (layout_of req)]
      else [FilterStore req,
            Go (DoAutomaticVolumeGrow ms req @ [DoneGrowRequest (layout_of req), FilterDelete req])])"
  by (simp add: handle_grow_request_def Let_def layout_of_GetVolumeLayout)

lemma done_calls_handle_grow_request:
  "done_calls (flatten (handle_grow_request ms keys req)) = [layout_of req]"
  by (simp add: handle_grow_request_cases flatten_append flatten_DoAutomaticVolumeGrow
      done_calls_append done_calls_DoAutomaticVolumeGrow)

text \<open>
  Claim C2: whatever the dispatcher does with a request it has received, the trace holds
  exactly one \<open>DoneGrowRequest\<close>, on the layout of the request: after the sleep on the
  three discarding paths (not leader, an equal request in flight, growth no longer needed),
  and in the goroutine of an accepted request right after \<open>DoAutomaticVolumeGrow\<close>, which
  itself never calls it, whatever the outcome of the growth.
\<close>

theorem DoneGrowRequest_exactly_once:
  "done_calls (flatten (handle_grow_request ms keys req)) = [layout_of req]
   \<and> (\<not> IsLeader ms \<longrightarrow>
        handle_grow_request ms keys req = [Sleep 1000, DoneGrowRequest (layout_of req)])
   \<and> (IsLeader ms \<and> list_ex (\<lambda>existingReq. Equals existingReq req) keys \<longrightarrow>
        handle_grow_request ms keys req = [Sleep 211, DoneGrowRequest (layout_of req)])
   \<and> (IsLeader ms \<and> \<not> Force req \<and>
        \<not> ShouldGrowVolumes ms (layout_of req) (Collection (Option req)) \<longrightarrow>
        handle_grow_request ms keys req = [Sleep 211, DoneGrowRequest (layout_of req)])
   \<and> (IsLeader ms \<and> \<not> list_ex (\<lambda>existingReq. Equals existingReq req) keys \<and>
        (Force req \<or> ShouldGrowVolumes ms (layout_of req) (Collection (Option req))) \<longrightarrow>
        handle_grow_request ms keys req =
          [FilterStore req,
           Go (DoAutomaticVolumeGrow ms req @ [DoneGrowRequest (layout_of req), FilterDelete req])]
        \<and> done_calls (DoAutomaticVolumeGrow ms req) = [])"
proof (intro conjI impI)
  show "done_calls (flatten (handle_grow_request ms keys req)) = [layout_of req]"
    by (rule done_calls_handle_grow_request)
  show "done_calls (DoAutomaticVolumeGrow ms req) = []"
    by (rule done_calls_DoAutomaticVolumeGrow)
qed (auto simp: handle_grow_request_cases)

section \<open>Properties of the pipeline\<close>

lemma owed_simps:
  "owed [] vl = 0"
  "owed (DoneGrowRequest v # es) vl = (if v = vl then 1 else 0) + owed es vl"
  "owed (Go body # es) vl = owed body vl + owed es vl"
  "owed (Sleep n # es) vl = owed es vl"
  "owed (FilterStore r # es) vl = owed es vl"
  "owed (FilterDelete r # es) vl = owed es vl"
  "owed (CallAutomaticGrowByType option count # es) vl = owed es vl"
  "owed (BroadcastToClients resp # es) vl = owed es vl"
  by (simp_all add: owed_def done_calls_append)

lemma owed_handle_grow_request:
  "owed (handle_grow_request ms keys req) vl = (if layout_of req = vl then 1 else 0)"
  by (simp add: owed_def done_calls_handle_grow_request)

lemma sum_list_map_update:
  fixes f :: "'a \<Rightarrow> nat"
  shows "i < length ts \<Longrightarrow> sum_list (map f (ts[i := x])) + f (ts ! i) = sum_list (map f ts) + f x"
proof (induction ts arbitrary: i)
  case Nil
  then show ?case by simp
next
  case (Cons t ts)
  then show ?case by (cases i) auto
qed

lemma layout_of_scanned:
  "layout_of \<lparr>Option = ToGrowOption vlc, Count = c, Force = f, Reason = r\<rparr> = vlc_VolumeLayout vlc"
  "layout_of \<lparr>Option = (ToGrowOption vlc)\<lparr>DataCenter := dc\<rparr>, Count = c, Force = f, Reason = r\<rparr>
     = vlc_VolumeLayout vlc"
  by (simp_all add: layout_of_def ToGrowOption_def vlc_VolumeLayout_def GetVolumeLayout_def)

lemma guard_invD: "guard_inv s \<Longrightarrow> growRequest s vl \<Longrightarrow> 1 \<le> pending s vl"
  unfolding guard_inv_def by blast

lemma guard_invI: "(\<And>vl. growRequest s vl \<Longrightarrow> 1 \<le> pending s vl) \<Longrightarrow> guard_inv s"
  unfolding guard_inv_def by blast

lemma scanner_step_pending:
  assumes "scanner_step cap ms s = Some s'"
  shows "pending s vl \<le> pending s' vl
       \<and> (growRequest s' vl \<longrightarrow> growRequest s vl \<or> 1 \<le> pending s' vl)"
  using assms
  unfolding scanner_step_def pending_def AddGrowRequest_def HasGrowRequest_def Let_def
  by (auto simp: layout_of_scanned split: scanner_pc.splits scan_pos.splits list.splits if_splits)

lemma scanner_step_inv:
  assumes "guard_inv s" and "scanner_step cap ms s = Some s'"
  shows "guard_inv s'"
proof (rule guard_invI)
  fix vl
  assume g: "growRequest s' vl"
  show "1 \<le> pending s' vl"
    using scanner_step_pending [OF assms(2), of vl] g guard_invD [OF assms(1), of vl]
    by auto
qed

lemma owed_body:
  "owed (DoAutomaticVolumeGrow ms req @ [DoneGrowRequest v, FilterDelete req]) vl
     = (if v = vl then 1 else 0)"
  by (simp add: owed_def flatten_append done_calls_append flatten_DoAutomaticVolumeGrow
      done_calls_DoAutomaticVolumeGrow)

text \<open>
  The effects the dispatcher runs for a request are those of the loop body, for the
  answers it got and the filter as \<open>Range\<close> saw it.
\<close>

lemma dispatcher_step_handle_grow_request:
  "dispatcher s = AtIsLeader req \<Longrightarrow> \<not> IsLeader ms \<Longrightarrow>
     dispatcher_step ms s = Some (s\<lparr>dispatcher := Running (handle_grow_request ms keys req)\<rparr>)"
  "dispatcher s = AtShouldGrow req (list_ex (\<lambda>existingReq. Equals existingReq req) keys) \<Longrightarrow>
     IsLeader ms \<Longrightarrow>
     dispatcher_step ms s = Some (s\<lparr>dispatcher := Running (handle_grow_request ms keys req)\<rparr>)"
  by (simp_all add: dispatcher_step_def handle_grow_request_cases)

lemma dispatcher_step_exec:
  assumes "dispatcher_step ms s = Some s'" and "dispatcher s = Running (e # es)"
  shows "s' = exec_effect e (s\<lparr>dispatcher := Running es\<rparr>)"
  using assms by (simp add: dispatcher_step_def)

lemma dispatcher_step_local:
  assumes "dispatcher_step ms s = Some s'" and "\<forall>e es. dispatcher s \<noteq> Running (e # es)"
  shows "growRequest s' = growRequest s" and "tasks s' = tasks s"
    and "filter_keys s' = filter_keys s" and "pending s' vl = pending s vl"
    and "running (dispatcher s) = []"
  using assms
  unfolding dispatcher_step_def pending_def
  by (auto simp: owed_body owed_simps
      split: dispatcher_pc.splits scanner_pc.splits list.splits if_splits)

lemma exec_effect_pending_dispatcher:
  assumes "dispatcher s = Running (e # es)"
  shows "pending (exec_effect e (s\<lparr>dispatcher := Running es\<rparr>)) vl
           + (if e = DoneGrowRequest vl then 1 else 0) = pending s vl"
  using assms by (cases e) (simp_all add: pending_def owed_simps DoneGrowRequest_op_def)

lemma exec_effect_growRequest:
  "growRequest (exec_effect e s) vl = (growRequest s vl \<and> e \<noteq> DoneGrowRequest vl)"
  by (cases e) (auto simp: DoneGrowRequest_op_def)

lemma dispatcher_step_inv:
  assumes "guard_inv s" and "dispatcher_step ms s = Some s'"
  shows "guard_inv s'"
proof (cases "\<exists>e es. dispatcher s = Running (e # es)")
  case True
  then obtain e es where d: "dispatcher s = Running (e # es)"
    by blast
  have s': "s' = exec_effect e (s\<lparr>dispatcher := Running es\<rparr>)"
    using assms(2) d by (rule dispatcher_step_exec)
  show ?thesis
  proof (rule guard_invI)
    fix vl
    assume "growRequest s' vl"
    then have g: "growRequest s vl" and ne: "e \<noteq> DoneGrowRequest vl"
      by (simp_all add: s' exec_effect_growRequest)
    from assms(1) g have "1 \<le> pending s vl"
      by (rule guard_invD)
    then show "1 \<le> pending s' vl"
      using exec_effect_pending_dispatcher [OF d, of vl] ne by (simp add: s')
  qed
next
  case False
  then have loc: "\<forall>e es. dispatcher s \<noteq> Running (e # es)"
    by blast
  show ?thesis
  proof (rule guard_invI)
    fix vl
    assume "growRequest s' vl"
    then have "growRequest s vl"
      by (simp add: dispatcher_step_local(1) [OF assms(2) loc])
    with assms(1) have "1 \<le> pending s vl"
      by (rule guard_invD)
    then show "1 \<le> pending s' vl"
      by (simp add: dispatcher_step_local(4) [OF assms(2) loc])
  qed
qed

lemma exec_effect_pending_task:
  assumes "i < length (tasks s)" and "tasks s ! i = e # es"
  shows "pending (exec_effect e (s\<lparr>tasks := (tasks s)[i := es]\<rparr>)) vl
           + (if e = DoneGrowRequest vl then 1 else 0) = pending s vl"
proof -
  have upd: "sum_list (map (\<lambda>t. owed t vl) ((tasks s)[i := es])) + owed (e # es) vl
      = sum_list (map (\<lambda>t. owed t vl) (tasks s)) + owed es vl"
    using sum_list_map_update [OF assms(1), of "\<lambda>t. owed t vl" es] assms(2) by simp
  show ?thesis
    using upd by (cases e) (simp_all add: pending_def owed_simps DoneGrowRequest_op_def)
qed

lemma task_step_inv:
  assumes "guard_inv s" and "task_step i s = Some s'"
  shows "guard_inv s'"
proof -
  from assms(2) obtain e es where i: "i < length (tasks s)" and t: "tasks s ! i = e # es"
    and s': "s' = exec_effect e (s\<lparr>tasks := (tasks s)[i := es]\<rparr>)"
    by (auto simp: task_step_def split: list.splits if_splits)
  show ?thesis
  proof (rule guard_invI)
    fix vl
    assume "growRequest s' vl"
    then have g: "growRequest s vl" and ne: "e \<noteq> DoneGrowRequest vl"
      by (simp_all add: s' exec_effect_growRequest)
    from assms(1) g have "1 \<le> pending s vl"
      by (rule guard_invD)
    then show "1 \<le> pending s' vl"
      using exec_effect_pending_task [OF i t, of vl] ne by (simp add: s')
  qed
qed

lemma step_inv:
  assumes "guard_inv s" and "step cap a s = Some s'"
  shows "guard_inv s'"
  using assms scanner_step_inv dispatcher_step_inv task_step_inv
  by (cases a) auto

lemma run_inv:
  assumes "guard_inv s" and "run cap as s = Some s'"
  shows "guard_inv s'"
  using assms
  by (induction as arbitrary: s) (auto split: option.splits dest: step_inv)

lemma guard_inv_init: "guard_inv init_pipeline"
  by (simp add: guard_inv_def init_pipeline_def)

text \<open>
  Claim C3, amended: in every reachable state of the pipeline, for every capacity of the
  channel, a layout whose guard is set has at least one request in the pipeline.
\<close>

theorem guard_implies_pending_request:
  assumes "reachable cap s" and "growRequest s vl"
  shows "1 \<le> pending s vl"
proof -
  from assms(1) obtain as where "run cap as init_pipeline = Some s"
    unfolding reachable_def by blast
  then have "guard_inv s"
    by (rule run_inv [OF guard_inv_init])
  then show ?thesis
    using assms(2) by (rule guard_invD)
qed

section \<open>The in-flight filter\<close>


































section \<open>The pipeline on the small cluster\<close>

lemma run_append:
  "run cap (as @ bs) s = (case run cap as s of None \<Rightarrow> None | Some s' \<Rightarrow> run cap bs s')"
  by (induction as arbitrary: s) (simp_all split: option.splits)

lemma example_layout_of: "layout_of (example_request dc) = vlc_VolumeLayout example_layout"
  by (simp add: example_request_def layout_of_scanned)

lemma example_request_simps:
  "Force (example_request dc)"
  "(Option (example_request a) = Option (example_request b)) = (a = b)"
  "Collection (Option (example_request dc)) = []"
  by (simp_all add: example_request_def ToGrowOption_def example_layout_def)

lemma example_DoAutomaticVolumeGrow:
  "DoAutomaticVolumeGrow example_master (example_request dc) =
     CallAutomaticGrowByType (Option (example_request dc)) 1 #
     (if dc \<in> set [[], ''dc1'', ''dc2'', ''dc3'']
      then [BroadcastToClients (KeepConnectedResponse ''10.0.0.1:8080'')] else [])"
  by (simp add: DoAutomaticVolumeGrow_def example_master_fields example_grow_def
      example_request_def)

lemmas example_steps =
  scanner_step_def dispatcher_step_def task_step_def example_master_fields
  AddGrowRequest_def HasGrowRequest_def DoneGrowRequest_op_def example_request_def [symmetric]
  example_body_def example_DoAutomaticVolumeGrow example_layout_of Equals_def
  example_request_simps

lemma run_scan_schedule:
  "run 2 scan_schedule init_pipeline =
     Some \<lparr>growRequest = (\<lambda>vl. False)(vlc_VolumeLayout example_layout := True),
           chan = [example_request ''dc1'', example_request ''dc2''],
           filter_keys = [],
           scanner = At (AtDataCenters [''dc1'', ''dc2''] example_layout [] []),
           dispatcher = Running [], tasks = []\<rparr>"
  by (simp add: scan_schedule_def init_pipeline_def example_steps)

lemma run_handoff_schedule:
  "run 0 handoff_schedule init_pipeline =
     Some \<lparr>growRequest = (\<lambda>vl. False)(vlc_VolumeLayout example_layout := True),
           chan = [],
           filter_keys = [example_request ''dc1''],
           scanner = Sending (example_request ''dc2'')
                       (AtDataCenters [''dc1'', ''dc2''] example_layout [] []),
           dispatcher = Running [],
           tasks = [example_body ''dc1'']\<rparr>"
  by (simp add: handoff_schedule_def init_pipeline_def example_steps)

lemma run_republish_schedule:
  "run 0 republish_schedule init_pipeline =
     Some \<lparr>growRequest = (\<lambda>vl. False)(vlc_VolumeLayout example_layout := True),
           chan = [],
           filter_keys = [example_request ''dc1'', example_request ''dc2''],
           scanner = At (AtDataCenters [''dc1'', ''dc2''] example_layout [''dc2''] []),
           dispatcher = AtIsLeader (example_request ''dc1''),
           tasks = [example_body ''dc1'', [FilterDelete (example_request ''dc2'')]]\<rparr>"
  by (simp add: republish_schedule_def run_append run_handoff_schedule example_steps)


lemma run_late_schedule:
  "run 0 late_schedule init_pipeline =
     Some \<lparr>growRequest = (\<lambda>vl. False),
           chan = [],
           filter_keys = [example_request ''dc2''],
           scanner = At (AtDataCenters [''dc1'', ''dc2''] example_layout [''dc2''] []),
           dispatcher = Running [FilterStore (example_request ''dc1''), Go (example_body ''dc1'')],
           tasks = [[], [FilterDelete (example_request ''dc2'')]]\<rparr>"
  by (simp add: late_schedule_def run_append run_republish_schedule example_steps)
     (simp add: fun_eq_iff)


text \<open>
  Claim C3, as stated, on the cluster above, where \<open>dc1\<close> and \<open>dc2\<close> are both short: after
  one pass of the scanner the guard of the layout is set and the channel holds two
  requests for it, the second published while the first was not consumed; and without any
  buffer, the guard is set while one request of the layout is growing and a second one is
  being sent. In both states two requests of the layout are in the pipeline.
\<close>

theorem two_requests_pending_counterexample:
  "reachable 2 (the (run 2 scan_schedule init_pipeline))
   \<and> reachable 0 (the (run 0 handoff_schedule init_pipeline))
   \<and> run 2 scan_schedule init_pipeline \<noteq> None
   \<and> growRequest (the (run 2 scan_schedule init_pipeline)) (vlc_VolumeLayout example_layout)
   \<and> chan (the (run 2 scan_schedule init_pipeline))
       = [example_request ''dc1'', example_request ''dc2'']
   \<and> layout_of (example_request ''dc1'') = vlc_VolumeLayout example_layout
   \<and> layout_of (example_request ''dc2'') = vlc_VolumeLayout example_layout
   \<and> pending (the (run 2 scan_schedule init_pipeline)) (vlc_VolumeLayout example_layout) = 2
   \<and> run 0 handoff_schedule init_pipeline \<noteq> None
   \<and> growRequest (the (run 0 handoff_schedule init_pipeline)) (vlc_VolumeLayout example_layout)
   \<and> pending (the (run 0 handoff_schedule init_pipeline)) (vlc_VolumeLayout example_layout) = 2"
proof -
  have "reachable 2 (the (run 2 scan_schedule init_pipeline))"
    unfolding reachable_def by (rule exI [of _ scan_schedule]) (simp add: run_scan_schedule)
  moreover have "reachable 0 (the (run 0 handoff_schedule init_pipeline))"
    unfolding reachable_def
    by (rule exI [of _ handoff_schedule]) (simp add: run_handoff_schedule)
  ultimately show ?thesis
    by (simp add: run_scan_schedule run_handoff_schedule pending_def example_layout_of
        owed_simps owed_body example_body_def)
qed

theorem guard_implies_pending_request_witness:
  "reachable 2 (the (run 2 scan_schedule init_pipeline))
   \<and> growRequest (the (run 2 scan_schedule init_pipeline)) (vlc_VolumeLayout example_layout)
   \<and> 1 \<le> pending (the (run 2 scan_schedule init_pipeline)) (vlc_VolumeLayout example_layout)"
proof -
  let ?s = "the (run 2 scan_schedule init_pipeline)"
  have r: "reachable 2 ?s"
    unfolding reachable_def by (rule exI [of _ scan_schedule]) (simp add: run_scan_schedule)
  have g: "growRequest ?s (vlc_VolumeLayout example_layout)"
    by (simp add: run_scan_schedule)
  show ?thesis
    using r g guard_implies_pending_request [OF r g] by simp
qed

text \<open>
  The filter is read at \<open>Range\<close>, not at the receive. On the small cluster the dispatcher
  receives a second request for \<open>dc1\<close> while the first one is growing; when the growth
  finishes and deletes its key before the dispatcher ranges over the filter, the second
  request is accepted.
\<close>

lemma delete_before_range:
  "example_body ''dc1'' \<in> set (tasks (the (run 0 republish_schedule init_pipeline)))
   \<and> dispatcher (the (run 0 republish_schedule init_pipeline)) = AtIsLeader (example_request ''dc1'')
   \<and> dispatcher (the (run 0 late_schedule init_pipeline))
       = Running [FilterStore (example_request ''dc1''), Go (example_body ''dc1'')]"
  by (simp add: run_republish_schedule run_late_schedule)


section \<open>The scanner off the leader\<close>

text \<open>
  Claim C5: from the top of its loop, however often the scanner asks and is told that
  this master is not the leader, the pipeline stays as it is: no guard is set, nothing is
  sent to the channel, and the scanner is back at the top of its loop.
\<close>

theorem scanner_idle_when_not_leader:
  assumes "scanner s = At AtTop" and "\<forall>ms \<in> set mss. \<not> IsLeader ms"
  shows "run cap (map Scan mss) s = Some s"
  using assms
  by (induction mss) (simp_all add: scanner_step_def)

theorem scanner_idle_when_not_leader_witness:
  "run 2 [Scan (example_master\<lparr>IsLeader := False\<rparr>), Scan (example_master\<lparr>IsLeader := False\<rparr>)]
     init_pipeline = Some init_pipeline
   \<and> \<not> growRequest (init_pipeline :: string pipeline) (vlc_VolumeLayout example_layout)
   \<and> chan (init_pipeline :: string pipeline) = []"
proof -
  have a: "scanner (init_pipeline :: string pipeline) = At AtTop"
    by (simp add: init_pipeline_def)
  have b: "\<forall>ms \<in> set [example_master\<lparr>IsLeader := False\<rparr>, example_master\<lparr>IsLeader := False\<rparr>].
      \<not> IsLeader ms"
    by simp
  show ?thesis
    using scanner_idle_when_not_leader [OF a b, of 2] by (simp add: init_pipeline_def)
qed

lemma layout_of_Force_update: "layout_of (req\<lparr>Force := b\<rparr>) = layout_of req"
  by (simp add: layout_of_def)

theorem DoneGrowRequest_exactly_once_witness:
  "handle_grow_request (example_master\<lparr>IsLeader := False\<rparr>) [] (example_request ''dc1'')
     = [Sleep 1000, DoneGrowRequest (vlc_VolumeLayout example_layout)]
   \<and> handle_grow_request example_master [example_request ''dc1''] (example_request ''dc1'')
     = [Sleep 211, DoneGrowRequest (vlc_VolumeLayout example_layout)]
   \<and> handle_grow_request example_master [] ((example_request ''dc1'')\<lparr>Force := False\<rparr>)
     = [Sleep 211, DoneGrowRequest (vlc_VolumeLayout example_layout)]
   \<and> handle_grow_request example_master [] (example_request ''dc1'')
     = [FilterStore (example_request ''dc1''), Go (example_body ''dc1'')]
   \<and> done_calls (flatten (handle_grow_request example_master [] (example_request ''dc1'')))
     = [vlc_VolumeLayout example_layout]"
proof -
  note simps = example_master_fields example_layout_of Equals_def example_request_simps
    example_body_def layout_of_Force_update
  have a: "handle_grow_request (example_master\<lparr>IsLeader := False\<rparr>) [] (example_request ''dc1'')
      = [Sleep 1000, DoneGrowRequest (vlc_VolumeLayout example_layout)]"
    using DoneGrowRequest_exactly_once [of "example_master\<lparr>IsLeader := False\<rparr>" "[]"
        "example_request ''dc1''"]
    by (simp add: simps)
  have b: "handle_grow_request example_master [example_request ''dc1''] (example_request ''dc1'')
      = [Sleep 211, DoneGrowRequest (vlc_VolumeLayout example_layout)]"
    using DoneGrowRequest_exactly_once [of example_master "[example_request ''dc1'']"
        "example_request ''dc1''"]
    by (simp add: simps)
  have c: "handle_grow_request example_master [] ((example_request ''dc1'')\<lparr>Force := False\<rparr>)
      = [Sleep 211, DoneGrowRequest (vlc_VolumeLayout example_layout)]"
    using DoneGrowRequest_exactly_once [of example_master "[]"
        "(example_request ''dc1'')\<lparr>Force := False\<rparr>"]
    by (simp add: simps)
  note d = DoneGrowRequest_exactly_once [of example_master "[]" "example_request ''dc1''"]
  have d1: "done_calls (flatten (handle_grow_request example_master [] (example_request ''dc1'')))
      = [vlc_VolumeLayout example_layout]"
    using d [THEN conjunct1] by (simp only: example_layout_of)
  have d2: "handle_grow_request example_master [] (example_request ''dc1'')
      = [FilterStore (example_request ''dc1''), Go (example_body ''dc1'')]"
    using d [THEN conjunct2] by (simp add: simps)
  show ?thesis
    using a b c d1 d2 by (simp only: simp_thms)
qed

end
